theory Spec2Isabelle
  imports Main "HOL-Library.Signed_Division"
begin

section \<open>Sidebar directories (package internal)\<close>

text \<open>
  Modelled from the spec: the declaration of the struct \<open>directory\<close> is not among the
  sources; it is taken with the two string fields the code reads and writes,
  \<open>location\<close> and \<open>name\<close>.
\<close>

record directory =
  location :: string
  name :: string

text \<open>
  The fuzzy matcher of fzf-lib is an external capability. It is a parameter of the model:
  given the haystack and the query it yields the keys of \<open>result.Matches\<close>, in order.
\<close>

type_synonym scorer = "string list \<Rightarrow> string \<Rightarrow> string list"

text \<open>The two group headers that \<open>getDirectories\<close> puts between the groups.\<close>

definition pinnedDivider :: directory where
  "pinnedDivider = \<lparr>location = ''Pinned+-*/=?'', name = ''''\<rparr>"

definition diskDivider :: directory where
  "diskDivider = \<lparr>location = ''Disks+-*/=?'', name = ''''\<rparr>"

definition isDivider :: "directory \<Rightarrow> bool" where
  "isDivider d = (location d = ''Pinned+-*/=?'' \<or> location d = ''Disks+-*/=?'')"

text \<open>
  \<open>getDirectories\<close>: the three sources are read from the operating system; their results
  are the arguments.
\<close>

definition getDirectories ::
  "directory list \<Rightarrow> directory list \<Rightarrow> directory list \<Rightarrow> directory list" where
  "getDirectories wellKnown pinned external =
     [] @ wellKnown @ [pinnedDivider] @ pinned @ [diskDivider] @ external"

text \<open>
  \<open>fuzzySearch\<close>: the first loop fills \<open>haystack\<close> and \<open>dirMap\<close> (a later directory of the
  same name overwrites an earlier one); the second loop looks every matched key up in
  \<open>dirMap\<close> and keeps the ones that are found.
\<close>

definition buildDirMap :: "directory list \<Rightarrow> (string \<rightharpoonup> directory)" where
  "buildDirMap dirs = fold (\<lambda>dir m. m(name dir \<mapsto> dir)) dirs Map.empty"

fun resolveMatches :: "(string \<rightharpoonup> directory) \<Rightarrow> string list \<Rightarrow> directory list" where
  "resolveMatches dirMap [] = []"
| "resolveMatches dirMap (key # matches) =
     (case dirMap key of
        Some d \<Rightarrow> d # resolveMatches dirMap matches
      | None \<Rightarrow> resolveMatches dirMap matches)"

definition fuzzySearch :: "scorer \<Rightarrow> string \<Rightarrow> directory list \<Rightarrow> directory list" where
  "fuzzySearch fzf query dirs =
     (if length dirs > 0 then
        (let haystack = map name dirs;
             dirMap = buildDirMap dirs
         in resolveMatches dirMap (fzf haystack query))
      else [])"

text \<open>
  The partition loop of \<open>getFilteredDirectories\<close>. \<open>currentGroup\<close> is a pointer to one of
  the slices \<open>pinnedDirs\<close> and \<open>diskDirs\<close>, or nil.
\<close>

datatype groupRef = PinnedDirs | DiskDirs

type_synonym partitionState =
  "groupRef option \<times> directory list \<times> directory list \<times> directory list"

fun partitionStep :: "directory \<Rightarrow> partitionState \<Rightarrow> partitionState" where
  "partitionStep dir (currentGroup, noneDirs, pinnedDirs, diskDirs) =
     (if location dir = ''Pinned+-*/=?'' then (Some PinnedDirs, noneDirs, pinnedDirs, diskDirs)
      else if location dir = ''Disks+-*/=?'' then (Some DiskDirs, noneDirs, pinnedDirs, diskDirs)
      else (case currentGroup of
              Some PinnedDirs \<Rightarrow> (currentGroup, noneDirs, pinnedDirs @ [dir], diskDirs)
            | Some DiskDirs \<Rightarrow> (currentGroup, noneDirs, pinnedDirs, diskDirs @ [dir])
            | None \<Rightarrow> (currentGroup, noneDirs @ [dir], pinnedDirs, diskDirs)))"

definition partitionDirectories :: "directory list \<Rightarrow> partitionState" where
  "partitionDirectories allDirs = fold partitionStep allDirs (None, [], [], [])"

definition getFilteredDirectories ::
  "scorer \<Rightarrow> directory list \<Rightarrow> directory list \<Rightarrow> directory list \<Rightarrow> string \<Rightarrow> directory list" where
  "getFilteredDirectories fzf wellKnown pinned external query =
     (let allDirs = getDirectories wellKnown pinned external in
      case partitionDirectories allDirs of
        (currentGroup, noneDirs, pinnedDirs, diskDirs) \<Rightarrow>
          (let filteredNone = fuzzySearch fzf query noneDirs;
               filteredPinned = fuzzySearch fzf query pinnedDirs;
               filteredDisks = fuzzySearch fzf query diskDirs
           in filteredNone @ [pinnedDivider] @ filteredPinned @ [diskDivider] @ filteredDisks))"

text \<open>
  The groups of a dataset, as the spec's \<open>Partition\<close> lists them: the three slices the
  partition loop fills, in their fixed order.
\<close>

definition spec_Partition :: "directory list \<Rightarrow> directory list list" where
  "spec_Partition allDirs =
     (case partitionDirectories allDirs of
        (currentGroup, noneDirs, pinnedDirs, diskDirs) \<Rightarrow> [noneDirs, pinnedDirs, diskDirs])"

text \<open>
  \<open>getPinnedDirectories\<close>. A Go \<open>error\<close> is modelled by its message. The file read and the
  two \<open>json.Unmarshal\<close> calls are external: \<open>readFile\<close> is the outcome of
  \<open>os.ReadFile(variable.PinnedFile)\<close>, \<open>unmarshalPaths\<close> decodes into \<open>[]string\<close> and
  \<open>unmarshalPinned\<close> into the slice of \<open>{location, name}\<close> structs (as pairs);
  \<open>Base\<close> is \<open>filepath.Base\<close>. The second component of the result lists the calls of
  \<open>outPutLog\<close>.
\<close>

datatype err = Err string

type_synonym logLine = "string \<times> err"

definition getPinnedDirectories ::
  "(string \<Rightarrow> string) \<Rightarrow> (string \<Rightarrow> err + string list) \<Rightarrow>
   (string \<Rightarrow> err + (string \<times> string) list) \<Rightarrow> err + string \<Rightarrow>
   directory list \<times> logLine list" where
  "getPinnedDirectories Base unmarshalPaths unmarshalPinned readFile =
     (case readFile of
        Inl e \<Rightarrow> ([], [(''Read superfile data error'', e)])
      | Inr jsonData \<Rightarrow>
          (case unmarshalPaths jsonData of
             Inr paths \<Rightarrow> (map (\<lambda>path. \<lparr>location = path, name = Base path\<rparr>) paths, [])
           | Inl e1 \<Rightarrow>
               (case unmarshalPinned jsonData of
                  Inr pinnedDirs \<Rightarrow>
                    (map (\<lambda>(loc, nm). \<lparr>location = loc, name = nm\<rparr>) pinnedDirs, [])
                | Inl e2 \<Rightarrow> ([], [(''Error parsing pinned data'', e2)]))))"

section \<open>The libraries both zoxide plugins call\<close>

text \<open>
  The plugins use \<open>strings.ToLower\<close>, \<open>strings.TrimSpace\<close>, the fzf-lib matcher and the
  bubbles text input. They are parameters of the model, collected in one record; \<open>'tb\<close>
  is the type of \<open>textinput.Model\<close>. \<open>tiUpdate\<close> is \<open>Update\<close> on a key message (the command
  it also returns is dropped), the three setters stand for the assignments to the
  fields \<open>Placeholder\<close>, \<open>CharLimit\<close> and \<open>Width\<close>.
\<close>

record 'tb libs =
  ToLower :: "string \<Rightarrow> string"
  TrimSpace :: "string \<Rightarrow> string"
  fzfSearch :: scorer
  tiNew :: "'tb"
  tiSetPlaceholder :: "'tb \<Rightarrow> string \<Rightarrow> 'tb"
  tiSetCharLimit :: "'tb \<Rightarrow> int \<Rightarrow> 'tb"
  tiSetWidth :: "'tb \<Rightarrow> int \<Rightarrow> 'tb"
  tiValue :: "'tb \<Rightarrow> string"
  tiSetValue :: "'tb \<Rightarrow> string \<Rightarrow> 'tb"
  tiFocus :: "'tb \<Rightarrow> 'tb"
  tiUpdate :: "'tb \<Rightarrow> string \<Rightarrow> 'tb"

text \<open>Run-time panics of the Go code.\<close>

datatype panic = NilDereference | NilMapWrite | IndexOutOfRange

text \<open>\<open>strings.Split\<close> with a separator of one byte, and \<open>strings.Contains\<close>.\<close>

fun Split :: "string \<Rightarrow> char \<Rightarrow> string list" where
  "Split [] sep = [[]]"
| "Split (c # cs) sep =
     (if c = sep then [] # Split cs sep
      else (case Split cs sep of
              w # ws \<Rightarrow> (c # w) # ws
            | [] \<Rightarrow> [[c]]))"

fun hasPrefix :: "string \<Rightarrow> string \<Rightarrow> bool" where
  "hasPrefix s [] = True"
| "hasPrefix [] (p # ps) = False"
| "hasPrefix (c # cs) (p # ps) = (c = p \<and> hasPrefix cs ps)"

fun Contains :: "string \<Rightarrow> string \<Rightarrow> bool" where
  "Contains [] substr = (substr = [])"
| "Contains (c # cs) substr = (hasPrefix (c # cs) substr \<or> Contains cs substr)"

definition newline :: char where
  "newline = CHR 0x0A"

definition maxInt :: "int \<Rightarrow> int \<Rightarrow> int" where
  "maxInt a b = (if a > b then a else b)"

definition minInt :: "int \<Rightarrow> int \<Rightarrow> int" where
  "minInt a b = (if a < b then a else b)"

text \<open>
  Go's \<open>int\<close> has 64 bits: the result of an arithmetic operation is reduced to the range
  from \<open>-2^63\<close> up to \<open>2^63 - 1\<close>.
\<close>

definition int64 :: "int \<Rightarrow> int" where
  "int64 x = (x + 2 ^ 63) mod 2 ^ 64 - 2 ^ 63"

text \<open>
  The outcome of running \<open>zoxide query -l --exclude path\<close>: the error of the command, or
  what it wrote to its standard output.
\<close>

type_synonym toolRun = "err + string"

section \<open>The zoxide plugin of package zoxide\<close>

record 'tb ZoxideModal =
  Width :: int
  Height :: int
  Cursor :: int
  RenderIndex :: int
  Entries :: "string list"
  AllEntries :: "string list"
  SearchBar :: "'tb"
  SearchMode :: bool

text \<open>
  \<open>Modal\<close> is a pointer, nil before \<open>Init\<close>. The mutex \<open>mu\<close> is left out: every
  function runs to its end before the next one starts.
\<close>

record 'tb ZoxidePlugin =
  Modal :: "'tb ZoxideModal option"
  isOpen :: bool
  initialized :: bool

definition Init :: "'tb libs \<Rightarrow> 'tb ZoxidePlugin \<Rightarrow> 'tb ZoxidePlugin" where
  "Init L z =
     (if initialized z then z
      else z\<lparr>Modal := Some
               \<lparr>Width = 60, Height = 20, Cursor = 0, RenderIndex = 0,
                Entries = [], AllEntries = [],
                SearchBar =
                  tiSetWidth L
                    (tiSetCharLimit L
                       (tiSetPlaceholder L (tiNew L) ''Search zoxide history...'') 100)
                    (60 - 4),
                SearchMode = False\<rparr>,
             initialized := True\<rparr>)"

definition Close :: "'tb ZoxidePlugin \<Rightarrow> 'tb ZoxidePlugin" where
  "Close z = z\<lparr>isOpen := False\<rparr>"

definition getZoxideHistory :: "'tb libs \<Rightarrow> toolRun \<Rightarrow> err + string list" where
  "getZoxideHistory L run =
     (case run of
        Inl e \<Rightarrow> Inl e
      | Inr out \<Rightarrow>
          (if length out = 0 then Inr []
           else Inr (Split (TrimSpace L out) newline)))"

text \<open>
  \<open>Open\<close> returns the plugin it has changed and whether it returns a command
  (\<open>False\<close> is the nil command). \<open>OpenCmd\<close> is the body of that command, which the
  runtime calls later: its result is the message, \<open>None\<close> for nil and \<open>Some entries\<close>
  for \<open>ZoxideMsg\<close>.
\<close>

definition Open :: "'tb libs \<Rightarrow> 'tb ZoxidePlugin \<Rightarrow> panic + ('tb ZoxidePlugin \<times> bool)" where
  "Open L z =
     (if isOpen z then Inr (z, False)
      else
        (let z1 = (if \<not> initialized z then Init L z else z) in
         case Modal z1 of
           None \<Rightarrow> Inl NilDereference
         | Some m \<Rightarrow>
             Inr (z1\<lparr>isOpen := True,
                     Modal := Some (m\<lparr>Cursor := 0, RenderIndex := 0,
                                      SearchBar := tiSetValue L (SearchBar m) [],
                                      SearchMode := False\<rparr>)\<rparr>,
                  True)))"

definition OpenCmd ::
  "'tb libs \<Rightarrow> toolRun \<Rightarrow> 'tb ZoxidePlugin \<Rightarrow> panic + ('tb ZoxidePlugin \<times> string list option)" where
  "OpenCmd L run z =
     (case getZoxideHistory L run of
        Inl e \<Rightarrow> Inr (z\<lparr>isOpen := False\<rparr>, None)
      | Inr entries \<Rightarrow>
          (if length entries = 0 then Inr (z\<lparr>isOpen := False\<rparr>, None)
           else
             (case Modal z of
                None \<Rightarrow> Inl NilDereference
              | Some m \<Rightarrow>
                  Inr (z\<lparr>Modal := Some (m\<lparr>Entries := entries, AllEntries := entries\<rparr>)\<rparr>,
                       Some entries))))"

definition applySearch :: "'tb libs \<Rightarrow> 'tb ZoxidePlugin \<Rightarrow> panic + 'tb ZoxidePlugin" where
  "applySearch L z =
     (case Modal z of
        None \<Rightarrow> Inl NilDereference
      | Some m \<Rightarrow>
          (let searchTerm = ToLower L (tiValue L (SearchBar m)) in
           if searchTerm = [] then
             Inr (z\<lparr>Modal := Some (m\<lparr>Entries := AllEntries m, Cursor := 0, RenderIndex := 0\<rparr>)\<rparr>)
           else
             (let matches = fzfSearch L (AllEntries m) searchTerm in
              if length matches = 0 then
                Inr (z\<lparr>Modal := Some (m\<lparr>Cursor := 0, RenderIndex := 0\<rparr>)\<rparr>)
              else
                (let filtered = matches in
                 Inr (z\<lparr>Modal := Some (m\<lparr>Entries := filtered, Cursor := 0,
                                             RenderIndex := 0\<rparr>)\<rparr>)))))"

text \<open>
  \<open>handleKeypress\<close>: the key is \<open>msg.String()\<close>; the result is the plugin and the
  selected directory (the command is dropped).
\<close>

definition handleKeypress ::
  "'tb libs \<Rightarrow> 'tb ZoxidePlugin \<Rightarrow> string \<Rightarrow> panic + ('tb ZoxidePlugin \<times> string)" where
  "handleKeypress L z key =
     (case Modal z of
        None \<Rightarrow> Inl NilDereference
      | Some m \<Rightarrow>
          (if SearchMode m then
             (if key = ''enter'' then
                (case applySearch L z of
                   Inl p \<Rightarrow> Inl p
                 | Inr z1 \<Rightarrow>
                     (case Modal z1 of
                        None \<Rightarrow> Inl NilDereference
                      | Some m1 \<Rightarrow> Inr (z1\<lparr>Modal := Some (m1\<lparr>SearchMode := False\<rparr>)\<rparr>, [])))
              else if key = ''esc'' then
                Inr (z\<lparr>Modal := Some (m\<lparr>SearchBar := tiSetValue L (SearchBar m) [],
                                         Entries := AllEntries m,
                                         SearchMode := False\<rparr>)\<rparr>, [])
              else
                Inr (z\<lparr>Modal := Some (m\<lparr>SearchBar := tiUpdate L (SearchBar m) key\<rparr>)\<rparr>, []))
           else if key = ''q'' \<or> key = ''esc'' then Inr (Close z, [])
           else if key = ''enter'' then
             (if length (Entries m) > 0 \<and> Cursor m < int (length (Entries m)) then
                (if Cursor m < 0 then Inl IndexOutOfRange
                 else Inr (Close z, Entries m ! nat (Cursor m)))
              else Inr (z, []))
           else if key = ''up'' \<or> key = ''k'' then
             (if Cursor m > 0 then
                (let c = Cursor m - 1 in
                 Inr (z\<lparr>Modal := Some (m\<lparr>Cursor := c,
                                          RenderIndex :=
                                            (if c < RenderIndex m then c else RenderIndex m)\<rparr>)\<rparr>,
                      []))
              else
                Inr (z\<lparr>Modal := Some
                          (m\<lparr>Cursor := int (length (Entries m)) - 1,
                             RenderIndex :=
                               maxInt 0 (int (length (Entries m)) - Height m + 4)\<rparr>)\<rparr>,
                     []))
           else if key = ''down'' \<or> key = ''j'' then
             (if Cursor m < int (length (Entries m)) - 1 then
                (let c = Cursor m + 1 in
                 Inr (z\<lparr>Modal := Some (m\<lparr>Cursor := c,
                                          RenderIndex :=
                                            (if c \<ge> RenderIndex m + Height m - 4
                                             then RenderIndex m + 1 else RenderIndex m)\<rparr>)\<rparr>,
                      []))
              else Inr (z\<lparr>Modal := Some (m\<lparr>Cursor := 0, RenderIndex := 0\<rparr>)\<rparr>, []))
           else if key = ''/'' then
             Inr (z\<lparr>Modal := Some (m\<lparr>SearchBar := tiFocus L (SearchBar m),
                                      SearchMode := True\<rparr>)\<rparr>, [])
           else Inr (z, [])))"

text \<open>\<open>Update\<close>: a message is a key message or something else.\<close>

datatype msg = KeyMsg string | OtherMsg

definition Update ::
  "'tb libs \<Rightarrow> 'tb ZoxidePlugin \<Rightarrow> msg \<Rightarrow> panic + ('tb ZoxidePlugin \<times> string)" where
  "Update L z message =
     (if \<not> isOpen z then Inr (z, [])
      else (case message of
              KeyMsg key \<Rightarrow> handleKeypress L z key
            | OtherMsg \<Rightarrow> Inr (z, [])))"

text \<open>
  \<open>UpdateModalSize\<close>. The products \<open>width*2\<close> and \<open>height*2\<close> wrap around as Go's \<open>int\<close>
  does; Go's \<open>/\<close> on \<open>int\<close> truncates towards zero, which is \<open>sdiv\<close>.
\<close>

definition UpdateModalSize ::
  "'tb libs \<Rightarrow> 'tb ZoxidePlugin \<Rightarrow> int \<Rightarrow> int \<Rightarrow> panic + 'tb ZoxidePlugin" where
  "UpdateModalSize L z w h =
     (case Modal z of
        None \<Rightarrow> Inl NilDereference
      | Some m \<Rightarrow>
          (let newWidth = minInt (maxInt (int64 (w * 2) sdiv 3) 40) 100;
               newHeight = minInt (maxInt (int64 (h * 2) sdiv 3) 10) 30
           in Inr (z\<lparr>Modal := Some (m\<lparr>Width := newWidth, Height := newHeight,
                                        SearchBar := tiSetWidth L (SearchBar m) (newWidth - 4)\<rparr>)\<rparr>)))"

text \<open>
  \<open>View\<close> draws the entries with the indices from \<open>RenderIndex\<close> up to, and without,
  \<open>endIdx = RenderIndex + Height - 4\<close> (cut at the number of entries): the viewport has
  \<open>Height - 4\<close> rows.
\<close>

definition viewportHeight :: "'tb ZoxideModal \<Rightarrow> int" where
  "viewportHeight m = Height m - 4"


section \<open>The zoxide plugin of package main\<close>

record 'tb zoxideModal =
  "open" :: bool
  width :: int
  height :: int
  cursor :: int
  search :: "'tb"
  entries :: "string list"
  allItems :: "string list"
  render :: int
  basePath :: string
  searching :: bool

text \<open>
  \<open>emptyFlag\<close> is a Go map and \<open>modal\<close> a pointer; both are nil before \<open>Init\<close>. Reading
  a nil map finds nothing, writing to it panics.
\<close>

record 'tb ZoxidePlugin_main =
  emptyFlag :: "(string \<rightharpoonup> bool) option"
  modal :: "'tb zoxideModal option"

definition Init_main :: "'tb libs \<Rightarrow> 'tb ZoxidePlugin_main \<Rightarrow> 'tb ZoxidePlugin_main" where
  "Init_main L z =
     z\<lparr>emptyFlag := Some Map.empty,
       modal := Some
         \<lparr>open = False, width = 60, height = 20, cursor = 0,
          search =
            tiSetWidth L
              (tiSetCharLimit L
                 (tiSetPlaceholder L (tiNew L) ''Search zoxide history...'') 100)
              40,
          entries = [], allItems = [], render = 0, basePath = [], searching = False\<rparr>\<rparr>"

text \<open>
  \<open>IsEmptyHistory\<close>: \<open>run\<close> is the outcome of the command, used when the cache has no
  entry for \<open>cwd\<close>.
\<close>

definition IsEmptyHistory ::
  "'tb ZoxidePlugin_main \<Rightarrow> string \<Rightarrow> toolRun \<Rightarrow> panic + (bool \<times> 'tb ZoxidePlugin_main)" where
  "IsEmptyHistory z cwd run =
     (case (case emptyFlag z of None \<Rightarrow> None | Some flags \<Rightarrow> flags cwd) of
        Some val \<Rightarrow> Inr (val, z)
      | None \<Rightarrow>
          (let empty = (case run of Inl e \<Rightarrow> True | Inr out \<Rightarrow> length out = 0) in
           case emptyFlag z of
             None \<Rightarrow> Inl NilMapWrite
           | Some flags \<Rightarrow> Inr (empty, z\<lparr>emptyFlag := Some (flags(cwd \<mapsto> empty))\<rparr>)))"

text \<open>
  \<open>Show\<close> runs the command a second time after \<open>IsEmptyHistory\<close>: \<open>run1\<close> is the outcome
  of the run inside \<open>IsEmptyHistory\<close>, \<open>run2\<close> that of \<open>cmd.Output()\<close>. The second
  component of the result lists the calls of \<open>slog.Error\<close>.
\<close>

definition Show ::
  "'tb libs \<Rightarrow> 'tb ZoxidePlugin_main \<Rightarrow> string \<Rightarrow> toolRun \<Rightarrow> toolRun \<Rightarrow>
   panic + ('tb ZoxidePlugin_main \<times> logLine list)" where
  "Show L z baseDir run1 run2 =
     (case IsEmptyHistory z baseDir run1 of
        Inl p \<Rightarrow> Inl p
      | Inr (isEmpty, z1) \<Rightarrow>
          (if isEmpty then Inr (z1, [])
           else
             (case run2 of
                Inl e \<Rightarrow> Inr (z1, [(''Error getting zoxide history'', e)])
              | Inr output \<Rightarrow>
                  (let history = TrimSpace L output;
                       entries1 = Split history newline
                   in case modal z1 of
                        None \<Rightarrow> Inl NilDereference
                      | Some m \<Rightarrow>
                          Inr (z1\<lparr>modal := Some
                                    (m\<lparr>basePath := baseDir, entries := entries1,
                                       allItems := entries1, cursor := 0, render := 0,
                                       open := True,
                                       search := tiSetValue L (search m) [],
                                       searching := False\<rparr>)\<rparr>,
                               [])))))"

definition applySearch_main ::
  "'tb libs \<Rightarrow> 'tb ZoxidePlugin_main \<Rightarrow> panic + 'tb ZoxidePlugin_main" where
  "applySearch_main L z =
     (case modal z of
        None \<Rightarrow> Inl NilDereference
      | Some m \<Rightarrow>
          (let searchTerm = ToLower L (tiValue L (search m)) in
           if searchTerm = [] then Inr (z\<lparr>modal := Some (m\<lparr>entries := allItems m\<rparr>)\<rparr>)
           else
             (let filtered = filter (\<lambda>entry. Contains (ToLower L entry) searchTerm) (allItems m)
              in Inr (z\<lparr>modal := Some (m\<lparr>entries := filtered, cursor := 0, render := 0\<rparr>)\<rparr>))))"

text \<open>
  \<open>HandleKeypress\<close>: the result is the plugin, whether the key was handled, and the
  selected directory.
\<close>

definition HandleKeypress ::
  "'tb libs \<Rightarrow> 'tb ZoxidePlugin_main \<Rightarrow> string \<Rightarrow>
   panic + ('tb ZoxidePlugin_main \<times> bool \<times> string)" where
  "HandleKeypress L z key =
     (case modal z of
        None \<Rightarrow> Inl NilDereference
      | Some m \<Rightarrow>
          (if \<not> open m then Inr (z, False, [])
           else if searching m then
             (if key = ''enter'' then
                (case applySearch_main L z of
                   Inl p \<Rightarrow> Inl p
                 | Inr z1 \<Rightarrow>
                     (case modal z1 of
                        None \<Rightarrow> Inl NilDereference
                      | Some m1 \<Rightarrow> Inr (z1\<lparr>modal := Some (m1\<lparr>searching := False\<rparr>)\<rparr>, True, [])))
              else if key = ''esc'' then
                Inr (z\<lparr>modal := Some (m\<lparr>search := tiSetValue L (search m) [],
                                         entries := allItems m,
                                         searching := False\<rparr>)\<rparr>, True, [])
              else
                Inr (z\<lparr>modal := Some (m\<lparr>search := tiUpdate L (search m) key\<rparr>)\<rparr>, True, []))
           else if key = ''q'' \<or> key = ''esc'' then
             Inr (z\<lparr>modal := Some (m\<lparr>open := False\<rparr>)\<rparr>, True, [])
           else if key = ''enter'' then
             (if length (entries m) > 0 \<and> cursor m < int (length (entries m)) then
                (if cursor m < 0 then Inl IndexOutOfRange
                 else Inr (z\<lparr>modal := Some (m\<lparr>open := False\<rparr>)\<rparr>, True,
                           entries m ! nat (cursor m)))
              else Inr (z, True, []))
           else if key = ''up'' \<or> key = ''k'' then
             (if cursor m > 0 then
                (let c = cursor m - 1 in
                 Inr (z\<lparr>modal := Some (m\<lparr>cursor := c,
                                          render := (if c < render m then c else render m)\<rparr>)\<rparr>,
                      True, []))
              else
                (let r = int (length (entries m)) - height m in
                 Inr (z\<lparr>modal := Some (m\<lparr>cursor := int (length (entries m)) - 1,
                                          render := (if r < 0 then 0 else r)\<rparr>)\<rparr>,
                      True, [])))
           else if key = ''down'' \<or> key = ''j'' then
             (if cursor m < int (length (entries m)) - 1 then
                (let c = cursor m + 1 in
                 Inr (z\<lparr>modal := Some (m\<lparr>cursor := c,
                                          render := (if c \<ge> render m + height m
                                                     then render m + 1 else render m)\<rparr>)\<rparr>,
                      True, []))
              else Inr (z\<lparr>modal := Some (m\<lparr>cursor := 0, render := 0\<rparr>)\<rparr>, True, []))
           else if key = ''/'' then
             Inr (z\<lparr>modal := Some (m\<lparr>search := tiFocus L (search m), searching := True\<rparr>)\<rparr>,
                  True, [])
           else Inr (z, True, [])))"

definition UpdateModalSize_main ::
  "'tb ZoxidePlugin_main \<Rightarrow> int \<Rightarrow> int \<Rightarrow> panic + 'tb ZoxidePlugin_main" where
  "UpdateModalSize_main z w h =
     (case modal z of
        None \<Rightarrow> Inl NilDereference
      | Some m \<Rightarrow>
          (let w1 = int64 (w * 2) sdiv 3;
               w2 = (if w1 > 100 then 100 else if w1 < 40 then 40 else w1);
               h1 = int64 (h * 2) sdiv 3;
               h2 = (if h1 > 30 then 30 else if h1 < 10 then 10 else h1)
           in Inr (z\<lparr>modal := Some (m\<lparr>width := w2, height := h2\<rparr>)\<rparr>)))"

text \<open>
  \<open>RenderModal\<close> draws the entries with the indices from \<open>render\<close> up to, and without,
  \<open>endIdx = render + height - 4\<close> (cut at the number of entries): here too the viewport
  has \<open>height - 4\<close> rows.
\<close>

definition viewportHeight_main :: "'tb zoxideModal \<Rightarrow> int" where
  "viewportHeight_main m = height m - 4"

definition renderIndices :: "'tb zoxideModal \<Rightarrow> int list" where
  "renderIndices m =
     (let endIdx = render m + height m - 4;
          endIdx = (if endIdx > int (length (entries m)) then int (length (entries m)) else endIdx)
      in [render m .. endIdx - 1])"

section \<open>Running the plugins\<close>

text \<open>
  The events the host sends to a plugin: a key, or the new size of the terminal. A run
  stops at the first panic.
\<close>

datatype event = Key string | Resize int int

definition stepEvent :: "'tb libs \<Rightarrow> 'tb ZoxidePlugin \<Rightarrow> event \<Rightarrow> panic + 'tb ZoxidePlugin" where
  "stepEvent L z e =
     (case e of
        Key k \<Rightarrow> (case Update L z (KeyMsg k) of Inl p \<Rightarrow> Inl p | Inr (z1, selected) \<Rightarrow> Inr z1)
      | Resize w h \<Rightarrow> UpdateModalSize L z w h)"

fun runEvents :: "'tb libs \<Rightarrow> 'tb ZoxidePlugin \<Rightarrow> event list \<Rightarrow> panic + 'tb ZoxidePlugin" where
  "runEvents L z [] = Inr z"
| "runEvents L z (e # es) =
     (case stepEvent L z e of Inl p \<Rightarrow> Inl p | Inr z1 \<Rightarrow> runEvents L z1 es)"

definition stepEvent_main ::
  "'tb libs \<Rightarrow> 'tb ZoxidePlugin_main \<Rightarrow> event \<Rightarrow> panic + 'tb ZoxidePlugin_main" where
  "stepEvent_main L z e =
     (case e of
        Key k \<Rightarrow>
          (case HandleKeypress L z k of Inl p \<Rightarrow> Inl p | Inr (z1, handled, selected) \<Rightarrow> Inr z1)
      | Resize w h \<Rightarrow> UpdateModalSize_main z w h)"

fun runEvents_main ::
  "'tb libs \<Rightarrow> 'tb ZoxidePlugin_main \<Rightarrow> event list \<Rightarrow> panic + 'tb ZoxidePlugin_main" where
  "runEvents_main L z [] = Inr z"
| "runEvents_main L z (e # es) =
     (case stepEvent_main L z e of Inl p \<Rightarrow> Inl p | Inr z1 \<Rightarrow> runEvents_main L z1 es)"


definition cursorVisible_main :: "'tb zoxideModal \<Rightarrow> bool" where
  "cursorVisible_main m =
     (render m \<le> cursor m \<and> cursor m \<le> render m + viewportHeight_main m - 1)"




section \<open>An instance of the libraries\<close>

text \<open>
  To run the model on concrete inputs: lower-casing and trimming of ASCII, a matcher that
  keeps the strings of the haystack that contain the query, in their order, and a text
  input that is the string it holds, to which a key of one character is appended.
\<close>

definition lowerChar :: "char \<Rightarrow> char" where
  "lowerChar c =
     (let n = (of_char c :: nat) in if 65 \<le> n \<and> n \<le> 90 then char_of (n + 32) else c)"

definition isSpaceChar :: "char \<Rightarrow> bool" where
  "isSpaceChar c = (c \<in> set [CHR 0x20, CHR 0x09, CHR 0x0A, CHR 0x0B, CHR 0x0C, CHR 0x0D])"

definition sampleLibs :: "string libs" where
  "sampleLibs =
     \<lparr>ToLower = map lowerChar,
      TrimSpace = (\<lambda>s. rev (dropWhile isSpaceChar (rev (dropWhile isSpaceChar s)))),
      fzfSearch = (\<lambda>haystack query. filter (\<lambda>s. Contains s query) haystack),
      tiNew = [],
      tiSetPlaceholder = (\<lambda>tb p. tb),
      tiSetCharLimit = (\<lambda>tb n. tb),
      tiSetWidth = (\<lambda>tb w. tb),
      tiValue = (\<lambda>tb. tb),
      tiSetValue = (\<lambda>tb v. v),
      tiFocus = (\<lambda>tb. tb),
      tiUpdate = (\<lambda>tb key. if length key = 1 then tb @ key else tb)\<rparr>"

definition sampleScorer :: scorer where
  "sampleScorer haystack query = filter (\<lambda>s. Contains s query) haystack"

text \<open>\<open>filepath.Base\<close> on a system whose separator is the slash.\<close>

definition unixBase :: "string \<Rightarrow> string" where
  "unixBase path =
     (if path = [] then ''.''
      else (let p = rev (dropWhile (\<lambda>c. c = CHR ''/'') (rev path)) in
            if p = [] then ''/'' else rev (takeWhile (\<lambda>c. c \<noteq> CHR ''/'') (rev p))))"

text \<open>
  Two open modals with the sizes \<open>Init\<close> gives them, each showing the history
  \<open>/home/a\<close>, \<open>/srv/b\<close>.
\<close>

definition sampleModal :: "string ZoxideModal" where
  "sampleModal =
     \<lparr>Width = 60, Height = 20, Cursor = 0, RenderIndex = 0,
      Entries = [''/home/a'', ''/srv/b''], AllEntries = [''/home/a'', ''/srv/b''],
      SearchBar = [], SearchMode = False\<rparr>"

definition samplePlugin :: "string ZoxidePlugin" where
  "samplePlugin = \<lparr>Modal = Some sampleModal, isOpen = True, initialized = True\<rparr>"

definition sampleModal_main :: "string zoxideModal" where
  "sampleModal_main =
     \<lparr>open = True, width = 60, height = 20, cursor = 0, search = [],
      entries = [''/home/a'', ''/srv/b''], allItems = [''/home/a'', ''/srv/b''],
      render = 0, basePath = ''/home/u'', searching = False\<rparr>"

definition samplePlugin_main :: "string ZoxidePlugin_main" where
  "samplePlugin_main =
     \<lparr>emptyFlag = Some [''/home/u'' \<mapsto> False], modal = Some sampleModal_main\<rparr>"

text \<open>The displayed list after a key, when the handler returns.\<close>

definition displayedAfter :: "panic + ('tb ZoxidePlugin \<times> string) \<Rightarrow> string list option" where
  "displayedAfter r =
     (case r of
        Inl p \<Rightarrow> None
      | Inr (z, selected) \<Rightarrow> (case Modal z of None \<Rightarrow> None | Some m \<Rightarrow> Some (Entries m)))"

definition displayedAfter_main ::
  "panic + ('tb ZoxidePlugin_main \<times> bool \<times> string) \<Rightarrow> string list option" where
  "displayedAfter_main r =
     (case r of
        Inl p \<Rightarrow> None
      | Inr (z, handled, selected) \<Rightarrow>
          (case modal z of None \<Rightarrow> None | Some m \<Rightarrow> Some (entries m)))"

text \<open>A history of eight paths.\<close>

definition sampleEight :: "string list" where
  "sampleEight = [''/a'', ''/b'', ''/c'', ''/d'', ''/e'', ''/f'', ''/g'', ''/h'']"

section \<open>Properties of the sidebar directories\<close>

lemma buildDirMap_fold:
  "fold (\<lambda>dir m. m(name dir \<mapsto> dir)) dirs m0 k =
     (case filter (\<lambda>x. name x = k) dirs of [] \<Rightarrow> m0 k | y # ys \<Rightarrow> Some (last (y # ys)))"
  by (induction dirs arbitrary: m0) (auto split: list.splits)

lemma buildDirMap_Some:
  assumes "buildDirMap dirs k = Some d"
  shows "name d = k \<and> d \<in> set dirs \<and> d = last (filter (\<lambda>x. name x = k) dirs)"
proof -
  let ?same = "filter (\<lambda>x. name x = k) dirs"
  from assms have ne: "?same \<noteq> []" and d: "d = last ?same"
    by (auto simp: buildDirMap_def buildDirMap_fold split: list.splits)
  then have "d \<in> set ?same"
    using last_in_set by blast
  with d show ?thesis by auto
qed

lemma resolveMatches_set:
  "set (resolveMatches dirMap keys) = {d. \<exists>k \<in> set keys. dirMap k = Some d}"
  by (induction keys) (auto split: option.splits)

lemma fuzzySearch_member:
  assumes "d \<in> set (fuzzySearch fzf query dirs)"
  shows "name d \<in> set (fzf (map name dirs) query) \<and> d \<in> set dirs \<and>
         d = last (filter (\<lambda>x. name x = name d) dirs)"
proof -
  from assms obtain k where k: "k \<in> set (fzf (map name dirs) query)"
      and m: "buildDirMap dirs k = Some d"
    by (auto simp: fuzzySearch_def Let_def resolveMatches_set split: if_splits)
  from buildDirMap_Some [OF m] k show ?thesis by auto
qed

lemma buildDirMap_lookup:
  "buildDirMap dirs key =
     (if key \<in> set (map name dirs) then Some (last (filter (\<lambda>x. name x = key) dirs)) else None)"
proof (cases "filter (\<lambda>x. name x = key) dirs")
  case Nil
  then have "key \<notin> set (map name dirs)"
    by (auto simp: filter_empty_conv)
  with Nil show ?thesis
    by (simp add: buildDirMap_def buildDirMap_fold)
next
  case (Cons y ys)
  then have "y \<in> set (filter (\<lambda>x. name x = key) dirs)" by simp
  then have "key \<in> set (map name dirs)" by auto
  with Cons show ?thesis
    by (simp add: buildDirMap_def buildDirMap_fold)
qed

lemma fuzzySearch_complete:
  "fuzzySearch fzf query dirs =
     map (\<lambda>key. last (filter (\<lambda>x. name x = key) dirs))
       (filter (\<lambda>key. key \<in> set (map name dirs)) (fzf (map name dirs) query))"
proof (cases "dirs = []")
  case True
  then show ?thesis by (simp add: fuzzySearch_def)
next
  case False
  have "resolveMatches (buildDirMap dirs) keys =
      map (\<lambda>key. last (filter (\<lambda>x. name x = key) dirs))
        (filter (\<lambda>key. key \<in> set (map name dirs)) keys)" for keys
    by (induction keys) (simp_all add: buildDirMap_lookup)
  with False show ?thesis
    by (simp add: fuzzySearch_def Let_def)
qed

lemma partitionStep_no_divider:
  assumes "partitionStep dir (c, n, p, d) = (c', n', p', d')"
      and "list_all (\<lambda>x. \<not> isDivider x) (n @ p @ d)"
  shows "list_all (\<lambda>x. \<not> isDivider x) (n' @ p' @ d')"
  using assms by (auto simp: isDivider_def split: if_splits option.splits groupRef.splits)

lemma fold_partitionStep_no_divider:
  assumes "fold partitionStep dirs (c, n, p, d) = (c', n', p', d')"
      and "list_all (\<lambda>x. \<not> isDivider x) (n @ p @ d)"
  shows "list_all (\<lambda>x. \<not> isDivider x) (n' @ p' @ d')"
  using assms
proof (induction dirs arbitrary: c n p d)
  case Nil
  then show ?case by simp
next
  case (Cons dir dirs)
  obtain c1 n1 p1 d1 where st: "partitionStep dir (c, n, p, d) = (c1, n1, p1, d1)"
    by (cases "partitionStep dir (c, n, p, d)") auto
  from partitionStep_no_divider [OF st Cons.prems(2)]
  have "list_all (\<lambda>x. \<not> isDivider x) (n1 @ p1 @ d1)" .
  moreover from Cons.prems(1) st
  have "fold partitionStep dirs (c1, n1, p1, d1) = (c', n', p', d')" by simp
  ultimately show ?case by (rule Cons.IH [rotated])
qed

lemma partitionDirectories_no_divider:
  assumes "partitionDirectories allDirs = (c, n, p, d)"
  shows "list_all (\<lambda>x. \<not> isDivider x) (n @ p @ d)"
  using fold_partitionStep_no_divider [of allDirs None "[]" "[]" "[]" c n p d] assms
  by (simp add: partitionDirectories_def)

lemma fuzzySearch_no_divider:
  assumes "list_all (\<lambda>x. \<not> isDivider x) dirs"
  shows "filter isDivider (fuzzySearch fzf query dirs) = []"
proof -
  have "\<not> isDivider d" if "d \<in> set (fuzzySearch fzf query dirs)" for d
    using fuzzySearch_member [OF that] assms by (auto simp: list_all_iff)
  then show ?thesis by (simp add: filter_empty_conv)
qed

lemma fold_partitionStep_plain:
  assumes "list_all (\<lambda>x. \<not> isDivider x) dirs"
  shows "fold partitionStep dirs (c, n, p, d) =
           (case c of
              None \<Rightarrow> (c, n @ dirs, p, d)
            | Some PinnedDirs \<Rightarrow> (c, n, p @ dirs, d)
            | Some DiskDirs \<Rightarrow> (c, n, p, d @ dirs))"
  using assms
  by (induction dirs arbitrary: n p d)
     (auto simp: isDivider_def split: option.splits groupRef.splits)

lemma partitionDirectories_getDirectories:
  assumes "list_all (\<lambda>x. \<not> isDivider x) (wellKnown @ pinned @ external)"
  shows "partitionDirectories (getDirectories wellKnown pinned external) =
           (Some DiskDirs, wellKnown, pinned, external)"
  using assms
  by (simp add: partitionDirectories_def getDirectories_def fold_partitionStep_plain
      pinnedDivider_def diskDivider_def)

lemma fuzzySearch_no_match: "fuzzySearch (\<lambda>haystack query. []) query dirs = []"
  by (simp add: fuzzySearch_def)

lemma length_spec_Partition: "length (spec_Partition allDirs) = 3"
  by (simp add: spec_Partition_def split: prod.splits)

text \<open>
  Claim C10. \<open>fuzzySearch\<close> resolves every match through the name: its result is, for
  each key the matcher returns that is the name of an input directory, in the matcher's
  order and as often as the matcher returns it, the last directory of the input with
  that name. So every directory it returns bears a name the matcher returned and is the
  last of the input with that name; two returned directories of the same name are the
  same directory, and an earlier directory that shares its name with a later, different
  one is never returned: the later one stands in its place.
\<close>

theorem fuzzySearch_resolves_by_name:
  "fuzzySearch fzf query dirs =
     map (\<lambda>key. last (filter (\<lambda>x. name x = key) dirs))
       (filter (\<lambda>key. key \<in> set (map name dirs)) (fzf (map name dirs) query)) \<and>
   (\<forall>d \<in> set (fuzzySearch fzf query dirs).
      name d \<in> set (fzf (map name dirs) query) \<and>
      d = last (filter (\<lambda>x. name x = name d) dirs) \<and>
      (\<forall>e \<in> set (fuzzySearch fzf query dirs). name e = name d \<longrightarrow> e = d))"
proof (intro conjI ballI)
  show "fuzzySearch fzf query dirs =
     map (\<lambda>key. last (filter (\<lambda>x. name x = key) dirs))
       (filter (\<lambda>key. key \<in> set (map name dirs)) (fzf (map name dirs) query))"
    by (rule fuzzySearch_complete)
next
  fix d assume d: "d \<in> set (fuzzySearch fzf query dirs)"
  from fuzzySearch_member [OF d]
  show "name d \<in> set (fzf (map name dirs) query)" by simp
  from fuzzySearch_member [OF d]
  show "d = last (filter (\<lambda>x. name x = name d) dirs)" by simp
  have "e = d" if "e \<in> set (fuzzySearch fzf query dirs)" and "name e = name d" for e
    using fuzzySearch_member [OF that(1)] fuzzySearch_member [OF d] that(2) by simp
  then show "\<And>e. e \<in> set (fuzzySearch fzf query dirs) \<Longrightarrow> name e = name d \<longrightarrow> e = d"
    by blast
qed

text \<open>
  Two directories named \<open>x\<close> around one named \<open>y\<close>: the matcher returns all three names,
  and the result holds the second \<open>x\<close> in the place of the first.
\<close>

theorem fuzzySearch_resolves_by_name_witness:
  "fuzzySearch sampleScorer []
     [\<lparr>location = ''/a/x'', name = ''x''\<rparr>, \<lparr>location = ''/c/y'', name = ''y''\<rparr>,
      \<lparr>location = ''/b/x'', name = ''x''\<rparr>] =
     [\<lparr>location = ''/b/x'', name = ''x''\<rparr>, \<lparr>location = ''/c/y'', name = ''y''\<rparr>,
      \<lparr>location = ''/b/x'', name = ''x''\<rparr>] \<and>
   sampleScorer
     (map name [\<lparr>location = ''/a/x'', name = ''x''\<rparr>, \<lparr>location = ''/c/y'', name = ''y''\<rparr>,
                \<lparr>location = ''/b/x'', name = ''x''\<rparr>]) [] = [''x'', ''y'', ''x''] \<and>
   \<lparr>location = ''/a/x'', name = ''x''\<rparr>
     \<notin> set (fuzzySearch sampleScorer []
              [\<lparr>location = ''/a/x'', name = ''x''\<rparr>, \<lparr>location = ''/c/y'', name = ''y''\<rparr>,
               \<lparr>location = ''/b/x'', name = ''x''\<rparr>])"
  using fuzzySearch_resolves_by_name [of sampleScorer "[]"
    "[\<lparr>location = ''/a/x'', name = ''x''\<rparr>, \<lparr>location = ''/c/y'', name = ''y''\<rparr>,
      \<lparr>location = ''/b/x'', name = ''x''\<rparr>]", THEN conjunct1]
  by (simp add: sampleScorer_def)

text \<open>
  Claim C1, amended. The source partitions the directories into three groups and puts a
  header before the second and the third. For all sources, every matcher and every
  query the result of \<open>getFilteredDirectories\<close> holds exactly these two headers, the
  header of the pinned directories before that of the disks: one less than there are
  groups. With a matcher that finds nothing the result is the two headers. When no
  source holds a directory at the location of a header, the result is each source
  filtered on its own, with the headers between them.
\<close>

theorem getFilteredDirectories_dividers:
  "filter isDivider (getFilteredDirectories fzf wellKnown pinned external query) =
     [pinnedDivider, diskDivider] \<and>
   length (filter isDivider (getFilteredDirectories fzf wellKnown pinned external query)) =
     length (spec_Partition (getDirectories wellKnown pinned external)) - 1 \<and>
   getFilteredDirectories (\<lambda>haystack query. []) wellKnown pinned external query =
     [pinnedDivider, diskDivider] \<and>
   (list_all (\<lambda>d. \<not> isDivider d) (wellKnown @ pinned @ external) \<longrightarrow>
      getFilteredDirectories fzf wellKnown pinned external query =
        fuzzySearch fzf query wellKnown @ [pinnedDivider] @
        fuzzySearch fzf query pinned @ [diskDivider] @
        fuzzySearch fzf query external)"
proof -
  obtain c n p d where part:
    "partitionDirectories (getDirectories wellKnown pinned external) = (c, n, p, d)"
    by (cases "partitionDirectories (getDirectories wellKnown pinned external)") auto
  from partitionDirectories_no_divider [OF part]
  have nd: "list_all (\<lambda>x. \<not> isDivider x) n" "list_all (\<lambda>x. \<not> isDivider x) p"
    "list_all (\<lambda>x. \<not> isDivider x) d"
    by simp_all
  have div: "isDivider pinnedDivider" "isDivider diskDivider"
    by (simp_all add: isDivider_def pinnedDivider_def diskDivider_def)
  have first: "filter isDivider (getFilteredDirectories fzf wellKnown pinned external query) =
     [pinnedDivider, diskDivider]"
    using part nd div by (simp add: getFilteredDirectories_def fuzzySearch_no_divider)
  have third: "getFilteredDirectories (\<lambda>haystack query. []) wellKnown pinned external query =
     [pinnedDivider, diskDivider]"
    using part by (simp add: getFilteredDirectories_def fuzzySearch_no_match)
  have fourth: "getFilteredDirectories fzf wellKnown pinned external query =
        fuzzySearch fzf query wellKnown @ [pinnedDivider] @
        fuzzySearch fzf query pinned @ [diskDivider] @
        fuzzySearch fzf query external"
    if "list_all (\<lambda>d. \<not> isDivider d) (wellKnown @ pinned @ external)"
    using partitionDirectories_getDirectories [OF that]
    by (simp add: getFilteredDirectories_def)
  from first third fourth show ?thesis
    by (simp add: length_spec_Partition)
qed

theorem getFilteredDirectories_dividers_witness:
  "list_all (\<lambda>d. \<not> isDivider d)
     ([\<lparr>location = ''/home/u'', name = ''Home''\<rparr>] @ [] @ [\<lparr>location = ''/mnt/c'', name = ''c''\<rparr>]) \<and>
   getFilteredDirectories sampleScorer
     [\<lparr>location = ''/home/u'', name = ''Home''\<rparr>] [] [\<lparr>location = ''/mnt/c'', name = ''c''\<rparr>] ''c'' =
     [pinnedDivider, diskDivider, \<lparr>location = ''/mnt/c'', name = ''c''\<rparr>] \<and>
   filter isDivider (getFilteredDirectories sampleScorer
     [\<lparr>location = ''/home/u'', name = ''Home''\<rparr>] [] [\<lparr>location = ''/mnt/c'', name = ''c''\<rparr>] ''c'') =
     [pinnedDivider, diskDivider]"
proof -
  have h: "list_all (\<lambda>d. \<not> isDivider d)
     ([\<lparr>location = ''/home/u'', name = ''Home''\<rparr>] @ [] @ [\<lparr>location = ''/mnt/c'', name = ''c''\<rparr>])"
    by (simp add: isDivider_def)
  have f: "fuzzySearch sampleScorer ''c'' [\<lparr>location = ''/home/u'', name = ''Home''\<rparr>] = []"
    "fuzzySearch sampleScorer ''c'' [] = []"
    "fuzzySearch sampleScorer ''c'' [\<lparr>location = ''/mnt/c'', name = ''c''\<rparr>] =
       [\<lparr>location = ''/mnt/c'', name = ''c''\<rparr>]"
    by (simp_all add: fuzzySearch_def sampleScorer_def buildDirMap_def)
  from getFilteredDirectories_dividers
    [of sampleScorer "[\<lparr>location = ''/home/u'', name = ''Home''\<rparr>]" "[]"
        "[\<lparr>location = ''/mnt/c'', name = ''c''\<rparr>]" "''c''"] h f
  show ?thesis by (simp add: isDivider_def pinnedDivider_def diskDivider_def)
qed

text \<open>
  Claim C1 as stated fails: the three groups of a dataset come with two headers in the
  result, not three.
\<close>

theorem getFilteredDirectories_dividers_counterexample:
  "length (filter isDivider (getFilteredDirectories sampleScorer
     [\<lparr>location = ''/home/u'', name = ''Home''\<rparr>]
     [\<lparr>location = ''/srv/data'', name = ''data''\<rparr>]
     [\<lparr>location = ''/mnt/c'', name = ''c''\<rparr>] ''c'')) \<noteq>
   length (spec_Partition (getDirectories
     [\<lparr>location = ''/home/u'', name = ''Home''\<rparr>]
     [\<lparr>location = ''/srv/data'', name = ''data''\<rparr>]
     [\<lparr>location = ''/mnt/c'', name = ''c''\<rparr>]))"
  by (simp add: getFilteredDirectories_def getDirectories_def partitionDirectories_def
      spec_Partition_def pinnedDivider_def diskDivider_def isDivider_def fuzzySearch_def
      sampleScorer_def buildDirMap_def)

text \<open>
  Claim C7. \<open>getPinnedDirectories\<close> returns a list and no error. When the file cannot be
  read it logs and returns the empty list. When the data decodes as a list of strings,
  each path gives the directory named by its base name. When it does not, and decodes as
  a list of records, each record gives its directory. When it decodes as neither, the
  function logs and returns the empty list.
\<close>

theorem getPinnedDirectories_cases:
  "getPinnedDirectories Base unmarshalPaths unmarshalPinned (Inl e) =
     ([], [(''Read superfile data error'', e)]) \<and>
   (unmarshalPaths jsonData = Inr paths \<longrightarrow>
      getPinnedDirectories Base unmarshalPaths unmarshalPinned (Inr jsonData) =
        (map (\<lambda>path. \<lparr>location = path, name = Base path\<rparr>) paths, [])) \<and>
   (unmarshalPaths jsonData = Inl e1 \<and> unmarshalPinned jsonData = Inr records \<longrightarrow>
      getPinnedDirectories Base unmarshalPaths unmarshalPinned (Inr jsonData) =
        (map (\<lambda>(loc, nm). \<lparr>location = loc, name = nm\<rparr>) records, [])) \<and>
   (unmarshalPaths jsonData = Inl e1 \<and> unmarshalPinned jsonData = Inl e2 \<longrightarrow>
      getPinnedDirectories Base unmarshalPaths unmarshalPinned (Inr jsonData) =
        ([], [(''Error parsing pinned data'', e2)]))"
  by (simp add: getPinnedDirectories_def)

theorem getPinnedDirectories_cases_witness:
  "getPinnedDirectories unixBase (\<lambda>s. Inr [''/srv/data'']) (\<lambda>s. Inl (Err ''not records''))
     (Inr ''paths'') =
     ([\<lparr>location = ''/srv/data'', name = ''data''\<rparr>], []) \<and>
   getPinnedDirectories unixBase (\<lambda>s. Inl (Err ''not strings''))
     (\<lambda>s. Inr [(''/srv/data'', ''Data'')]) (Inr ''records'') =
     ([\<lparr>location = ''/srv/data'', name = ''Data''\<rparr>], []) \<and>
   getPinnedDirectories unixBase (\<lambda>s. Inl (Err ''not strings''))
     (\<lambda>s. Inl (Err ''not records'')) (Inr ''neither'') =
     ([], [(''Error parsing pinned data'', Err ''not records'')])"
  using
    getPinnedDirectories_cases [of unixBase "\<lambda>s. Inr [''/srv/data'']"
      "\<lambda>s. Inl (Err ''not records'')" "Err ''no file''" "''paths''" "[''/srv/data'']"]
    getPinnedDirectories_cases [of unixBase "\<lambda>s. Inl (Err ''not strings'')"
      "\<lambda>s. Inr [(''/srv/data'', ''Data'')]" "Err ''no file''" "''records''" _
      "Err ''not strings''" "[(''/srv/data'', ''Data'')]"]
    getPinnedDirectories_cases [of unixBase "\<lambda>s. Inl (Err ''not strings'')"
      "\<lambda>s. Inl (Err ''not records'')" "Err ''no file''" "''neither''" _
      "Err ''not strings''" _ "Err ''not records''"]
  by (simp add: unixBase_def)

section \<open>Properties of the search mode\<close>

lemma runEvents_append:
  "runEvents L z (xs @ ys) =
     (case runEvents L z xs of Inl p \<Rightarrow> Inl p | Inr z1 \<Rightarrow> runEvents L z1 ys)"
  by (induction xs arbitrary: z) (auto split: sum.splits)

lemma typing_step:
  assumes "isOpen z" "Modal z = Some m" "SearchMode m" "k \<noteq> ''enter''" "k \<noteq> ''esc''"
  shows "stepEvent L z (Key k) = Inr (z\<lparr>Modal := Some (m\<lparr>SearchBar := tiUpdate L (SearchBar m) k\<rparr>)\<rparr>)"
  using assms by (simp add: stepEvent_def Update_def handleKeypress_def)

lemma Modal_same: "Modal z = Some m \<Longrightarrow> z\<lparr>Modal := Some m\<rparr> = z"
  by (cases z) simp

lemma typing_run:
  assumes "isOpen z" "Modal z = Some m" "SearchMode m"
      and "list_all (\<lambda>k. k \<noteq> ''enter'' \<and> k \<noteq> ''esc'') ks"
  shows "\<exists>sb. runEvents L z (map Key ks) = Inr (z\<lparr>Modal := Some (m\<lparr>SearchBar := sb\<rparr>)\<rparr>)"
  using assms
proof (induction ks arbitrary: z m)
  case Nil
  show ?case
    by (rule exI [of _ "SearchBar m"]) (simp add: Modal_same [OF Nil.prems(2)])
next
  case (Cons k ks)
  let ?m1 = "m\<lparr>SearchBar := tiUpdate L (SearchBar m) k\<rparr>"
  let ?z1 = "z\<lparr>Modal := Some ?m1\<rparr>"
  from Cons.prems have st: "stepEvent L z (Key k) = Inr ?z1"
    by (simp add: typing_step)
  have "\<exists>sb. runEvents L ?z1 (map Key ks) = Inr (?z1\<lparr>Modal := Some (?m1\<lparr>SearchBar := sb\<rparr>)\<rparr>)"
    using Cons.prems by (intro Cons.IH) simp_all
  with st show ?case by simp
qed


lemma begin_search_step:
  assumes "isOpen z" "Modal z = Some m"
  shows "\<exists>sb. stepEvent L z (Key ''/'') = Inr (z\<lparr>Modal := Some (m\<lparr>SearchBar := sb, SearchMode := True\<rparr>)\<rparr>)"
proof (cases "SearchMode m")
  case True
  with assms have "stepEvent L z (Key ''/'') =
      Inr (z\<lparr>Modal := Some (m\<lparr>SearchBar := tiUpdate L (SearchBar m) ''/'', SearchMode := True\<rparr>)\<rparr>)"
    by (simp add: typing_step)
  then show ?thesis by blast
next
  case False
  with assms have "stepEvent L z (Key ''/'') =
      Inr (z\<lparr>Modal := Some (m\<lparr>SearchBar := tiFocus L (SearchBar m), SearchMode := True\<rparr>)\<rparr>)"
    by (simp add: stepEvent_def Update_def handleKeypress_def)
  then show ?thesis by blast
qed

lemma cancel_step:
  assumes "isOpen z" "Modal z = Some m" "SearchMode m"
  shows "stepEvent L z (Key ''esc'') =
    Inr (z\<lparr>Modal := Some (m\<lparr>SearchBar := tiSetValue L (SearchBar m) [],
                               Entries := AllEntries m, SearchMode := False\<rparr>)\<rparr>)"
  using assms by (simp add: stepEvent_def Update_def handleKeypress_def)


lemma cancel_search_zoxide:
  assumes "isOpen z" "Modal z = Some m"
      and "list_all (\<lambda>k. k \<noteq> ''enter'' \<and> k \<noteq> ''esc'') ks"
  shows "\<exists>sb. runEvents L z (map Key (''/'' # ks @ [''esc''])) =
           Inr (z\<lparr>Modal := Some (m\<lparr>SearchBar := tiSetValue L sb [],
                                      Entries := AllEntries m, SearchMode := False\<rparr>)\<rparr>)"
proof -
  from begin_search_step [OF assms(1,2)] obtain sb1 where
    s1: "stepEvent L z (Key ''/'') = Inr (z\<lparr>Modal := Some (m\<lparr>SearchBar := sb1, SearchMode := True\<rparr>)\<rparr>)"
    by blast
  define m1 where "m1 = m\<lparr>SearchBar := sb1, SearchMode := True\<rparr>"
  define z1 where "z1 = z\<lparr>Modal := Some m1\<rparr>"
  have z1: "isOpen z1" "Modal z1 = Some m1" "SearchMode m1"
    using assms(1) by (simp_all add: z1_def m1_def)
  from typing_run [OF z1 assms(3)] obtain sb2 where
    s2: "runEvents L z1 (map Key ks) = Inr (z1\<lparr>Modal := Some (m1\<lparr>SearchBar := sb2\<rparr>)\<rparr>)"
    by blast
  define m2 where "m2 = m1\<lparr>SearchBar := sb2\<rparr>"
  define z2 where "z2 = z1\<lparr>Modal := Some m2\<rparr>"
  have z2: "isOpen z2" "Modal z2 = Some m2" "SearchMode m2"
    using z1 by (simp_all add: z2_def m2_def)
  note s3 = cancel_step [OF z2, of L]
  have "runEvents L z (map Key (''/'' # ks @ [''esc''])) =
          (case stepEvent L z (Key ''/'') of Inl p \<Rightarrow> Inl p
           | Inr za \<Rightarrow> (case runEvents L za (map Key ks) of Inl p \<Rightarrow> Inl p
               | Inr zb \<Rightarrow> (case stepEvent L zb (Key ''esc'') of Inl p \<Rightarrow> Inl p | Inr zc \<Rightarrow> Inr zc)))"
    by (simp add: runEvents_append split: sum.splits)
  also have "\<dots> = Inr (z2\<lparr>Modal := Some (m2\<lparr>SearchBar := tiSetValue L (SearchBar m2) [],
                               Entries := AllEntries m2, SearchMode := False\<rparr>)\<rparr>)"
    using s1 s2 s3 by (simp add: z1_def [symmetric] m1_def [symmetric] z2_def [symmetric] m2_def [symmetric])
  also have "\<dots> = Inr (z\<lparr>Modal := Some (m\<lparr>SearchBar := tiSetValue L sb2 [],
                                      Entries := AllEntries m, SearchMode := False\<rparr>)\<rparr>)"
    by (simp add: z2_def m2_def z1_def m1_def)
  finally show ?thesis by blast
qed

lemma runEvents_main_append:
  "runEvents_main L z (xs @ ys) =
     (case runEvents_main L z xs of Inl p \<Rightarrow> Inl p | Inr z1 \<Rightarrow> runEvents_main L z1 ys)"
  by (induction xs arbitrary: z) (auto split: sum.splits)

lemma typing_step_main:
  assumes "open m" "modal z = Some m" "searching m" "k \<noteq> ''enter''" "k \<noteq> ''esc''"
  shows "stepEvent_main L z (Key k) = Inr (z\<lparr>modal := Some (m\<lparr>search := tiUpdate L (search m) k\<rparr>)\<rparr>)"
  using assms by (simp add: stepEvent_main_def HandleKeypress_def)

lemma modal_same: "modal z = Some m \<Longrightarrow> z\<lparr>modal := Some m\<rparr> = z"
  by (cases z) simp

lemma typing_run_main:
  assumes "open m" "modal z = Some m" "searching m"
      and "list_all (\<lambda>k. k \<noteq> ''enter'' \<and> k \<noteq> ''esc'') ks"
  shows "\<exists>sb. runEvents_main L z (map Key ks) = Inr (z\<lparr>modal := Some (m\<lparr>search := sb\<rparr>)\<rparr>)"
  using assms
proof (induction ks arbitrary: z m)
  case Nil
  show ?case
    by (rule exI [of _ "search m"]) (simp add: modal_same [OF Nil.prems(2)])
next
  case (Cons k ks)
  let ?m1 = "m\<lparr>search := tiUpdate L (search m) k\<rparr>"
  let ?z1 = "z\<lparr>modal := Some ?m1\<rparr>"
  from Cons.prems have st: "stepEvent_main L z (Key k) = Inr ?z1"
    by (simp add: typing_step_main)
  have "\<exists>sb. runEvents_main L ?z1 (map Key ks) = Inr (?z1\<lparr>modal := Some (?m1\<lparr>search := sb\<rparr>)\<rparr>)"
    using Cons.prems by (intro Cons.IH) simp_all
  with st show ?case by simp
qed


lemma begin_search_step_main:
  assumes "open m" "modal z = Some m"
  shows "\<exists>sb. stepEvent_main L z (Key ''/'') = Inr (z\<lparr>modal := Some (m\<lparr>search := sb, searching := True\<rparr>)\<rparr>)"
proof (cases "searching m")
  case True
  with assms have "stepEvent_main L z (Key ''/'') =
      Inr (z\<lparr>modal := Some (m\<lparr>search := tiUpdate L (search m) ''/'', searching := True\<rparr>)\<rparr>)"
    by (simp add: typing_step_main)
  then show ?thesis by blast
next
  case False
  with assms have "stepEvent_main L z (Key ''/'') =
      Inr (z\<lparr>modal := Some (m\<lparr>search := tiFocus L (search m), searching := True\<rparr>)\<rparr>)"
    by (simp add: stepEvent_main_def HandleKeypress_def)
  then show ?thesis by blast
qed

lemma cancel_step_main:
  assumes "open m" "modal z = Some m" "searching m"
  shows "stepEvent_main L z (Key ''esc'') =
    Inr (z\<lparr>modal := Some (m\<lparr>search := tiSetValue L (search m) [],
                               entries := allItems m, searching := False\<rparr>)\<rparr>)"
  using assms by (simp add: stepEvent_main_def HandleKeypress_def)


lemma cancel_search_main:
  assumes "open m" "modal z = Some m"
      and "list_all (\<lambda>k. k \<noteq> ''enter'' \<and> k \<noteq> ''esc'') ks"
  shows "\<exists>sb. runEvents_main L z (map Key (''/'' # ks @ [''esc''])) =
           Inr (z\<lparr>modal := Some (m\<lparr>search := tiSetValue L sb [],
                                      entries := allItems m, searching := False\<rparr>)\<rparr>)"
proof -
  from begin_search_step_main [OF assms(1,2)] obtain sb1 where
    s1: "stepEvent_main L z (Key ''/'') = Inr (z\<lparr>modal := Some (m\<lparr>search := sb1, searching := True\<rparr>)\<rparr>)"
    by blast
  define m1 where "m1 = m\<lparr>search := sb1, searching := True\<rparr>"
  define z1 where "z1 = z\<lparr>modal := Some m1\<rparr>"
  have z1: "open m1" "modal z1 = Some m1" "searching m1"
    using assms(1) by (simp_all add: z1_def m1_def)
  from typing_run_main [OF z1 assms(3)] obtain sb2 where
    s2: "runEvents_main L z1 (map Key ks) = Inr (z1\<lparr>modal := Some (m1\<lparr>search := sb2\<rparr>)\<rparr>)"
    by blast
  define m2 where "m2 = m1\<lparr>search := sb2\<rparr>"
  define z2 where "z2 = z1\<lparr>modal := Some m2\<rparr>"
  have z2: "open m2" "modal z2 = Some m2" "searching m2"
    using z1 by (simp_all add: z2_def m2_def)
  note s3 = cancel_step_main [OF z2, of L]
  have "runEvents_main L z (map Key (''/'' # ks @ [''esc''])) =
          (case stepEvent_main L z (Key ''/'') of Inl p \<Rightarrow> Inl p
           | Inr za \<Rightarrow> (case runEvents_main L za (map Key ks) of Inl p \<Rightarrow> Inl p
               | Inr zb \<Rightarrow> (case stepEvent_main L zb (Key ''esc'') of Inl p \<Rightarrow> Inl p | Inr zc \<Rightarrow> Inr zc)))"
    by (simp add: runEvents_main_append split: sum.splits)
  also have "\<dots> = Inr (z2\<lparr>modal := Some (m2\<lparr>search := tiSetValue L (search m2) [],
                               entries := allItems m2, searching := False\<rparr>)\<rparr>)"
    using s1 s2 s3 by (simp add: z1_def [symmetric] m1_def [symmetric] z2_def [symmetric] m2_def [symmetric])
  also have "\<dots> = Inr (z\<lparr>modal := Some (m\<lparr>search := tiSetValue L sb2 [],
                                      entries := allItems m, searching := False\<rparr>)\<rparr>)"
    by (simp add: z2_def m2_def z1_def m1_def)
  finally show ?thesis by blast
qed

text \<open>
  The two sample plugins are what opening a plugin gives when the history tool prints
  the two paths.
\<close>

lemma samplePlugin_reached:
  "(case Open sampleLibs \<lparr>Modal = None, isOpen = False, initialized = False\<rparr> of
      Inl p \<Rightarrow> Inl p
    | Inr (z, c) \<Rightarrow> OpenCmd sampleLibs (Inr (''/home/a'' @ [newline] @ ''/srv/b'' @ [newline])) z) =
   Inr (samplePlugin, Some [''/home/a'', ''/srv/b''])"
  by (simp add: Open_def Init_def OpenCmd_def getZoxideHistory_def sampleLibs_def
      samplePlugin_def sampleModal_def newline_def isSpaceChar_def Let_def)

lemma samplePlugin_main_reached:
  "Show sampleLibs (Init_main sampleLibs \<lparr>emptyFlag = None, modal = None\<rparr>) ''/home/u''
     (Inr (''/home/a'' @ [newline] @ ''/srv/b'' @ [newline]))
     (Inr (''/home/a'' @ [newline] @ ''/srv/b'' @ [newline])) =
   Inr (samplePlugin_main, [])"
  by (simp add: Show_def Init_main_def IsEmptyHistory_def sampleLibs_def samplePlugin_main_def
      sampleModal_main_def newline_def isSpaceChar_def Let_def)

text \<open>
  Claim C4. In either plugin, from any state of the open modal: the key \<open>/\<close>, then any
  keys other than \<open>enter\<close> and \<open>esc\<close>, then \<open>esc\<close> lead to the state in which the displayed
  list is the list of all entries, which is unchanged, the search mode is off and the
  text of the search bar is what \<open>SetValue("")\<close> leaves, the empty text; nothing else of
  the modal has changed.
\<close>

theorem cancel_search_restores_all_entries:
  assumes "list_all (\<lambda>k. k \<noteq> ''enter'' \<and> k \<noteq> ''esc'') ks"
      and "\<forall>tb. tiValue L (tiSetValue L tb []) = []"
  shows "(isOpen z \<and> Modal z = Some m \<longrightarrow>
            (\<exists>sb. runEvents L z (map Key (''/'' # ks @ [''esc''])) =
                     Inr (z\<lparr>Modal := Some (m\<lparr>SearchBar := sb, Entries := AllEntries m,
                                                SearchMode := False\<rparr>)\<rparr>) \<and>
                   tiValue L sb = [])) \<and>
         (open n \<and> modal y = Some n \<longrightarrow>
            (\<exists>sb. runEvents_main L y (map Key (''/'' # ks @ [''esc''])) =
                     Inr (y\<lparr>modal := Some (n\<lparr>search := sb, entries := allItems n,
                                                searching := False\<rparr>)\<rparr>) \<and>
                   tiValue L sb = []))"
proof (intro conjI impI)
  assume "isOpen z \<and> Modal z = Some m"
  then have "isOpen z" "Modal z = Some m" by simp_all
  from cancel_search_zoxide [OF this assms(1), of L] assms(2)
  show "\<exists>sb. runEvents L z (map Key (''/'' # ks @ [''esc''])) =
                     Inr (z\<lparr>Modal := Some (m\<lparr>SearchBar := sb, Entries := AllEntries m,
                                                SearchMode := False\<rparr>)\<rparr>) \<and>
                   tiValue L sb = []"
    by blast
next
  assume "open n \<and> modal y = Some n"
  then have "open n" "modal y = Some n" by simp_all
  from cancel_search_main [OF this assms(1), of L] assms(2)
  show "\<exists>sb. runEvents_main L y (map Key (''/'' # ks @ [''esc''])) =
                     Inr (y\<lparr>modal := Some (n\<lparr>search := sb, entries := allItems n,
                                                searching := False\<rparr>)\<rparr>) \<and>
                   tiValue L sb = []"
    by blast
qed

theorem cancel_search_restores_all_entries_witness:
  "list_all (\<lambda>k. k \<noteq> ''enter'' \<and> k \<noteq> ''esc'') [''s'', ''r''] \<and>
   (\<forall>tb. tiValue sampleLibs (tiSetValue sampleLibs tb []) = []) \<and>
   isOpen (samplePlugin\<lparr>Modal := Some (sampleModal\<lparr>Entries := [''/srv/b'']\<rparr>)\<rparr>) \<and>
   Modal (samplePlugin\<lparr>Modal := Some (sampleModal\<lparr>Entries := [''/srv/b'']\<rparr>)\<rparr>) =
     Some (sampleModal\<lparr>Entries := [''/srv/b'']\<rparr>) \<and>
   (\<exists>sb. runEvents sampleLibs
           (samplePlugin\<lparr>Modal := Some (sampleModal\<lparr>Entries := [''/srv/b'']\<rparr>)\<rparr>)
           (map Key (''/'' # [''s'', ''r''] @ [''esc''])) =
         Inr (samplePlugin\<lparr>Modal := Some (sampleModal\<lparr>SearchBar := sb\<rparr>)\<rparr>) \<and>
         tiValue sampleLibs sb = []) \<and>
   open (sampleModal_main\<lparr>entries := [''/srv/b'']\<rparr>) \<and>
   modal (samplePlugin_main\<lparr>modal := Some (sampleModal_main\<lparr>entries := [''/srv/b'']\<rparr>)\<rparr>) =
     Some (sampleModal_main\<lparr>entries := [''/srv/b'']\<rparr>) \<and>
   (\<exists>sb. runEvents_main sampleLibs
           (samplePlugin_main\<lparr>modal := Some (sampleModal_main\<lparr>entries := [''/srv/b'']\<rparr>)\<rparr>)
           (map Key (''/'' # [''s'', ''r''] @ [''esc''])) =
         Inr (samplePlugin_main\<lparr>modal := Some (sampleModal_main\<lparr>search := sb\<rparr>)\<rparr>) \<and>
         tiValue sampleLibs sb = [])"
proof -
  have keys: "list_all (\<lambda>k. k \<noteq> ''enter'' \<and> k \<noteq> ''esc'') [''s'', ''r'']"
    by simp
  have lib: "\<forall>tb. tiValue sampleLibs (tiSetValue sampleLibs tb []) = []"
    by (simp add: sampleLibs_def)
  have all: "AllEntries sampleModal = Entries sampleModal"
    "allItems sampleModal_main = entries sampleModal_main"
    "\<And>sb. sampleModal\<lparr>SearchBar := sb, SearchMode := False\<rparr> = sampleModal\<lparr>SearchBar := sb\<rparr>"
    "\<And>sb. sampleModal_main\<lparr>search := sb, searching := False\<rparr> =
       sampleModal_main\<lparr>search := sb\<rparr>"
    by (simp_all add: sampleModal_def sampleModal_main_def)
  have "open sampleModal_main"
    by (simp add: sampleModal_main_def)
  with cancel_search_restores_all_entries [OF keys lib,
      of "samplePlugin\<lparr>Modal := Some (sampleModal\<lparr>Entries := [''/srv/b'']\<rparr>)\<rparr>"
         "sampleModal\<lparr>Entries := [''/srv/b'']\<rparr>"
         "sampleModal_main\<lparr>entries := [''/srv/b'']\<rparr>"
         "samplePlugin_main\<lparr>modal := Some (sampleModal_main\<lparr>entries := [''/srv/b'']\<rparr>)\<rparr>"]
    keys lib all
  show ?thesis
    by (simp add: samplePlugin_def)
qed

section \<open>Properties of committing a search\<close>

lemma commit_empty_zoxide:
  assumes "Modal z = Some m" "SearchMode m" "ToLower L (tiValue L (SearchBar m)) = []"
  shows "handleKeypress L z ''enter'' =
           Inr (z\<lparr>Modal := Some (m\<lparr>Entries := AllEntries m, Cursor := 0, RenderIndex := 0,
                                      SearchMode := False\<rparr>)\<rparr>, [])"
  using assms by (simp add: handleKeypress_def applySearch_def)

lemma commit_matches_zoxide:
  assumes "Modal z = Some m" "SearchMode m" "ToLower L (tiValue L (SearchBar m)) \<noteq> []"
      and "fzfSearch L (AllEntries m) (ToLower L (tiValue L (SearchBar m))) \<noteq> []"
  shows "handleKeypress L z ''enter'' =
           Inr (z\<lparr>Modal := Some
                    (m\<lparr>Entries := fzfSearch L (AllEntries m) (ToLower L (tiValue L (SearchBar m))),
                       Cursor := 0, RenderIndex := 0, SearchMode := False\<rparr>)\<rparr>, [])"
  using assms by (simp add: handleKeypress_def applySearch_def Let_def)

lemma commit_no_match_zoxide:
  assumes "Modal z = Some m" "SearchMode m" "ToLower L (tiValue L (SearchBar m)) \<noteq> []"
      and "fzfSearch L (AllEntries m) (ToLower L (tiValue L (SearchBar m))) = []"
  shows "handleKeypress L z ''enter'' =
           Inr (z\<lparr>Modal := Some (m\<lparr>Cursor := 0, RenderIndex := 0, SearchMode := False\<rparr>)\<rparr>, [])"
  using assms by (simp add: handleKeypress_def applySearch_def Let_def)

lemma commit_empty_main:
  assumes "modal y = Some n" "open n" "searching n" "ToLower L (tiValue L (search n)) = []"
  shows "HandleKeypress L y ''enter'' =
           Inr (y\<lparr>modal := Some (n\<lparr>entries := allItems n, searching := False\<rparr>)\<rparr>, True, [])"
  using assms by (simp add: HandleKeypress_def applySearch_main_def)

lemma commit_term_main:
  assumes "modal y = Some n" "open n" "searching n" "ToLower L (tiValue L (search n)) \<noteq> []"
  shows "HandleKeypress L y ''enter'' =
           Inr (y\<lparr>modal := Some
                    (n\<lparr>entries := filter (\<lambda>entry. Contains (ToLower L entry)
                                              (ToLower L (tiValue L (search n)))) (allItems n),
                       cursor := 0, render := 0, searching := False\<rparr>)\<rparr>, True, [])"
  using assms by (simp add: HandleKeypress_def applySearch_main_def Let_def)

lemma browse_result:
  assumes "Modal z = Some m" "\<not> SearchMode m"
  shows "case handleKeypress L z key of
           Inl p \<Rightarrow> True
         | Inr (z1, selected) \<Rightarrow>
             (case Modal z1 of
                None \<Rightarrow> False
              | Some m1 \<Rightarrow> Entries m1 = Entries m \<and> AllEntries m1 = AllEntries m)"
  using assms by (simp add: handleKeypress_def Close_def Let_def)

lemma browse_keeps_Entries:
  assumes "Modal z = Some m" "\<not> SearchMode m" "handleKeypress L z key = Inr (z1, selected)"
  shows "\<exists>m1. Modal z1 = Some m1 \<and> Entries m1 = Entries m \<and> AllEntries m1 = AllEntries m"
  using browse_result [OF assms(1,2), of L key] assms(3)
  by (simp split: option.splits)

lemma browse_result_main:
  assumes "modal y = Some n" "\<not> searching n"
  shows "case HandleKeypress L y key of
           Inl p \<Rightarrow> True
         | Inr (y1, handled, selected) \<Rightarrow>
             (case modal y1 of
                None \<Rightarrow> False
              | Some n1 \<Rightarrow> entries n1 = entries n \<and> allItems n1 = allItems n)"
  using assms by (simp add: HandleKeypress_def Let_def)

lemma browse_keeps_entries_main:
  assumes "modal y = Some n" "\<not> searching n" "HandleKeypress L y key = Inr (y1, handled, selected)"
  shows "\<exists>n1. modal y1 = Some n1 \<and> entries n1 = entries n \<and> allItems n1 = allItems n"
  using browse_result_main [OF assms(1,2), of L key] assms(3)
  by (simp split: option.splits)

lemma sampleLower:
  "ToLower sampleLibs ''srv'' = ''srv''" "ToLower sampleLibs ''zzz'' = ''zzz''"
  "ToLower sampleLibs ''q9'' = ''q9''" "ToLower sampleLibs [] = []"
  "ToLower sampleLibs ''/home/a'' = ''/home/a''" "ToLower sampleLibs ''/srv/b'' = ''/srv/b''"
  by (simp_all add: sampleLibs_def lowerChar_def)

lemma sampleInput:
  "tiValue sampleLibs tb = tb" "tiSetValue sampleLibs tb v = v"
  by (simp_all add: sampleLibs_def)

lemma sampleMatches:
  "fzfSearch sampleLibs [''/home/a'', ''/srv/b''] ''srv'' = [''/srv/b'']"
  "fzfSearch sampleLibs [''/home/a'', ''/srv/b''] ''zzz'' = []"
  "fzfSearch sampleLibs [''/home/a'', ''/srv/b''] ''q9'' = []"
  by (simp_all add: sampleLibs_def)

text \<open>
  Claim C5, amended. Committing a search whose query is not empty makes the displayed
  list the filtered result, puts cursor and viewport offset to 0 and leaves the search
  mode: in package main always, in package zoxide when the matcher finds an entry.
  Committing with an empty query makes the displayed list the list of all entries; in
  package zoxide it also puts cursor and viewport offset to 0. Outside the search mode
  no key changes the displayed list: the filter stays.
\<close>

theorem commit_search_replaces_displayed:
  "(Modal z = Some m \<and> SearchMode m \<longrightarrow>
      (tiValue L (SearchBar m) = [] \<and> ToLower L [] = [] \<longrightarrow>
         handleKeypress L z ''enter'' =
           Inr (z\<lparr>Modal := Some (m\<lparr>Entries := AllEntries m, Cursor := 0, RenderIndex := 0,
                                      SearchMode := False\<rparr>)\<rparr>, [])) \<and>
      (ToLower L (tiValue L (SearchBar m)) \<noteq> [] \<and>
       fzfSearch L (AllEntries m) (ToLower L (tiValue L (SearchBar m))) \<noteq> [] \<longrightarrow>
         handleKeypress L z ''enter'' =
           Inr (z\<lparr>Modal := Some
                    (m\<lparr>Entries := fzfSearch L (AllEntries m) (ToLower L (tiValue L (SearchBar m))),
                       Cursor := 0, RenderIndex := 0, SearchMode := False\<rparr>)\<rparr>, []))) \<and>
   (Modal z = Some m \<and> \<not> SearchMode m \<and> handleKeypress L z key = Inr (z1, selected) \<longrightarrow>
      (\<exists>m1. Modal z1 = Some m1 \<and> Entries m1 = Entries m)) \<and>
   (modal y = Some n \<and> open n \<and> searching n \<longrightarrow>
      (tiValue L (search n) = [] \<and> ToLower L [] = [] \<longrightarrow>
         (\<exists>n1. HandleKeypress L y ''enter'' = Inr (y\<lparr>modal := Some n1\<rparr>, True, []) \<and>
               entries n1 = allItems n \<and> allItems n1 = allItems n \<and> \<not> searching n1)) \<and>
      (ToLower L (tiValue L (search n)) \<noteq> [] \<longrightarrow>
         HandleKeypress L y ''enter'' =
           Inr (y\<lparr>modal := Some
                    (n\<lparr>entries := filter (\<lambda>entry. Contains (ToLower L entry)
                                              (ToLower L (tiValue L (search n)))) (allItems n),
                       cursor := 0, render := 0, searching := False\<rparr>)\<rparr>, True, []))) \<and>
   (modal y = Some n \<and> \<not> searching n \<and> HandleKeypress L y key = Inr (y1, handled, selected) \<longrightarrow>
      (\<exists>n1. modal y1 = Some n1 \<and> entries n1 = entries n))"
proof (intro conjI impI)
  assume "Modal z = Some m \<and> SearchMode m" "tiValue L (SearchBar m) = [] \<and> ToLower L [] = []"
  then show "handleKeypress L z ''enter'' =
           Inr (z\<lparr>Modal := Some (m\<lparr>Entries := AllEntries m, Cursor := 0, RenderIndex := 0,
                                      SearchMode := False\<rparr>)\<rparr>, [])"
    by (intro commit_empty_zoxide) simp_all
next
  assume "Modal z = Some m \<and> SearchMode m"
    "ToLower L (tiValue L (SearchBar m)) \<noteq> [] \<and>
       fzfSearch L (AllEntries m) (ToLower L (tiValue L (SearchBar m))) \<noteq> []"
  then show "handleKeypress L z ''enter'' =
           Inr (z\<lparr>Modal := Some
                    (m\<lparr>Entries := fzfSearch L (AllEntries m) (ToLower L (tiValue L (SearchBar m))),
                       Cursor := 0, RenderIndex := 0, SearchMode := False\<rparr>)\<rparr>, [])"
    by (intro commit_matches_zoxide) simp_all
next
  assume "Modal z = Some m \<and> \<not> SearchMode m \<and> handleKeypress L z key = Inr (z1, selected)"
  then have "Modal z = Some m" "\<not> SearchMode m" "handleKeypress L z key = Inr (z1, selected)"
    by simp_all
  from browse_keeps_Entries [OF this]
  show "\<exists>m1. Modal z1 = Some m1 \<and> Entries m1 = Entries m" by blast
next
  assume "modal y = Some n \<and> open n \<and> searching n" "tiValue L (search n) = [] \<and> ToLower L [] = []"
  then have "HandleKeypress L y ''enter'' =
           Inr (y\<lparr>modal := Some (n\<lparr>entries := allItems n, searching := False\<rparr>)\<rparr>, True, [])"
    by (intro commit_empty_main) simp_all
  then show "\<exists>n1. HandleKeypress L y ''enter'' = Inr (y\<lparr>modal := Some n1\<rparr>, True, []) \<and>
               entries n1 = allItems n \<and> allItems n1 = allItems n \<and> \<not> searching n1"
    by (intro exI [of _ "n\<lparr>entries := allItems n, searching := False\<rparr>"]) simp
next
  assume "modal y = Some n \<and> open n \<and> searching n" "ToLower L (tiValue L (search n)) \<noteq> []"
  then show "HandleKeypress L y ''enter'' =
           Inr (y\<lparr>modal := Some
                    (n\<lparr>entries := filter (\<lambda>entry. Contains (ToLower L entry)
                                              (ToLower L (tiValue L (search n)))) (allItems n),
                       cursor := 0, render := 0, searching := False\<rparr>)\<rparr>, True, [])"
    by (intro commit_term_main) simp_all
next
  assume "modal y = Some n \<and> \<not> searching n \<and> HandleKeypress L y key = Inr (y1, handled, selected)"
  then have "modal y = Some n" "\<not> searching n" "HandleKeypress L y key = Inr (y1, handled, selected)"
    by simp_all
  from browse_keeps_entries_main [OF this]
  show "\<exists>n1. modal y1 = Some n1 \<and> entries n1 = entries n" by blast
qed

theorem commit_search_replaces_displayed_witness:
  "handleKeypress sampleLibs
     (samplePlugin\<lparr>Modal := Some (sampleModal\<lparr>Entries := [''/srv/b''], Cursor := 1,
                                            SearchMode := True\<rparr>)\<rparr>) ''enter'' =
     Inr (samplePlugin, []) \<and>
   handleKeypress sampleLibs
     (samplePlugin\<lparr>Modal := Some (sampleModal\<lparr>Cursor := 1, SearchBar := ''srv'',
                                            SearchMode := True\<rparr>)\<rparr>) ''enter'' =
     Inr (samplePlugin\<lparr>Modal := Some (sampleModal\<lparr>Entries := [''/srv/b''],
                                                SearchBar := ''srv''\<rparr>)\<rparr>, []) \<and>
   (\<exists>m1. Modal (samplePlugin\<lparr>Modal := Some (sampleModal\<lparr>Cursor := 1\<rparr>)\<rparr>) = Some m1 \<and>
         Entries m1 = Entries sampleModal) \<and>
   (\<exists>n1. HandleKeypress sampleLibs
           (samplePlugin_main\<lparr>modal := Some (sampleModal_main\<lparr>entries := [''/srv/b''],
                                                         searching := True\<rparr>)\<rparr>) ''enter'' =
           Inr (samplePlugin_main\<lparr>modal := Some n1\<rparr>, True, []) \<and>
         entries n1 = [''/home/a'', ''/srv/b''] \<and> \<not> searching n1) \<and>
   HandleKeypress sampleLibs
     (samplePlugin_main\<lparr>modal := Some (sampleModal_main\<lparr>cursor := 1, search := ''srv'',
                                                   searching := True\<rparr>)\<rparr>) ''enter'' =
     Inr (samplePlugin_main\<lparr>modal := Some (sampleModal_main\<lparr>search := ''srv'',
                                                       entries := [''/srv/b'']\<rparr>)\<rparr>, True, []) \<and>
   (\<exists>n1. modal (samplePlugin_main\<lparr>modal := Some (sampleModal_main\<lparr>cursor := 1\<rparr>)\<rparr>) = Some n1 \<and>
         entries n1 = entries sampleModal_main)"
proof -
  have down: "handleKeypress sampleLibs samplePlugin ''down'' =
      Inr (samplePlugin\<lparr>Modal := Some (sampleModal\<lparr>Cursor := 1\<rparr>)\<rparr>, [])"
    by (simp add: handleKeypress_def samplePlugin_def sampleModal_def)
  have down_main: "HandleKeypress sampleLibs samplePlugin_main ''down'' =
      Inr (samplePlugin_main\<lparr>modal := Some (sampleModal_main\<lparr>cursor := 1\<rparr>)\<rparr>, True, [])"
    by (simp add: HandleKeypress_def samplePlugin_main_def sampleModal_main_def)
  have a1: "handleKeypress sampleLibs
     (samplePlugin\<lparr>Modal := Some (sampleModal\<lparr>Entries := [''/srv/b''], Cursor := 1,
                                            SearchMode := True\<rparr>)\<rparr>) ''enter'' =
     Inr (samplePlugin, [])"
    using commit_search_replaces_displayed
      [where L = sampleLibs
         and z = "samplePlugin\<lparr>Modal := Some (sampleModal\<lparr>Entries := [''/srv/b''], Cursor := 1,
                                                       SearchMode := True\<rparr>)\<rparr>"
         and m = "sampleModal\<lparr>Entries := [''/srv/b''], Cursor := 1, SearchMode := True\<rparr>",
       THEN conjunct1]
    by (simp add: sampleLower sampleInput samplePlugin_def sampleModal_def)
  have a2: "handleKeypress sampleLibs
     (samplePlugin\<lparr>Modal := Some (sampleModal\<lparr>Cursor := 1, SearchBar := ''srv'',
                                            SearchMode := True\<rparr>)\<rparr>) ''enter'' =
     Inr (samplePlugin\<lparr>Modal := Some (sampleModal\<lparr>Entries := [''/srv/b''],
                                                SearchBar := ''srv''\<rparr>)\<rparr>, [])"
    using commit_search_replaces_displayed
      [where L = sampleLibs
         and z = "samplePlugin\<lparr>Modal := Some (sampleModal\<lparr>Cursor := 1, SearchBar := ''srv'',
                                                       SearchMode := True\<rparr>)\<rparr>"
         and m = "sampleModal\<lparr>Cursor := 1, SearchBar := ''srv'', SearchMode := True\<rparr>",
       THEN conjunct1]
    by (simp add: sampleLower sampleInput sampleMatches samplePlugin_def sampleModal_def)
  have a3: "\<exists>m1. Modal (samplePlugin\<lparr>Modal := Some (sampleModal\<lparr>Cursor := 1\<rparr>)\<rparr>) = Some m1 \<and>
         Entries m1 = Entries sampleModal"
    using commit_search_replaces_displayed
      [where L = sampleLibs and z = samplePlugin and m = sampleModal and key = "''down''"
         and ?z1.0 = "samplePlugin\<lparr>Modal := Some (sampleModal\<lparr>Cursor := 1\<rparr>)\<rparr>"
         and selected = "[]",
       THEN conjunct2, THEN conjunct1] down
    by (simp add: samplePlugin_def sampleModal_def)
  have b1: "\<exists>n1. HandleKeypress sampleLibs
           (samplePlugin_main\<lparr>modal := Some (sampleModal_main\<lparr>entries := [''/srv/b''],
                                                         searching := True\<rparr>)\<rparr>) ''enter'' =
           Inr (samplePlugin_main\<lparr>modal := Some n1\<rparr>, True, []) \<and>
         entries n1 = [''/home/a'', ''/srv/b''] \<and> \<not> searching n1"
    using commit_search_replaces_displayed
      [where L = sampleLibs
         and y = "samplePlugin_main\<lparr>modal := Some (sampleModal_main\<lparr>entries := [''/srv/b''],
                                                         searching := True\<rparr>)\<rparr>"
         and n = "sampleModal_main\<lparr>entries := [''/srv/b''], searching := True\<rparr>",
       THEN conjunct2, THEN conjunct2, THEN conjunct1]
    by (simp add: sampleLower sampleInput samplePlugin_main_def sampleModal_main_def) blast
  have b2: "HandleKeypress sampleLibs
     (samplePlugin_main\<lparr>modal := Some (sampleModal_main\<lparr>cursor := 1, search := ''srv'',
                                                   searching := True\<rparr>)\<rparr>) ''enter'' =
     Inr (samplePlugin_main\<lparr>modal := Some (sampleModal_main\<lparr>search := ''srv'',
                                                       entries := [''/srv/b'']\<rparr>)\<rparr>, True, [])"
    using commit_search_replaces_displayed
      [where L = sampleLibs
         and y = "samplePlugin_main\<lparr>modal := Some (sampleModal_main\<lparr>cursor := 1, search := ''srv'',
                                                   searching := True\<rparr>)\<rparr>"
         and n = "sampleModal_main\<lparr>cursor := 1, search := ''srv'', searching := True\<rparr>",
       THEN conjunct2, THEN conjunct2, THEN conjunct1]
    by (simp add: sampleLower sampleInput samplePlugin_main_def sampleModal_main_def)
  have b3: "\<exists>n1. modal (samplePlugin_main\<lparr>modal := Some (sampleModal_main\<lparr>cursor := 1\<rparr>)\<rparr>) = Some n1 \<and>
         entries n1 = entries sampleModal_main"
    using commit_search_replaces_displayed
      [where L = sampleLibs and y = samplePlugin_main and n = sampleModal_main
         and key = "''down''"
         and ?y1.0 = "samplePlugin_main\<lparr>modal := Some (sampleModal_main\<lparr>cursor := 1\<rparr>)\<rparr>"
         and handled = True and selected = "[]",
       THEN conjunct2, THEN conjunct2, THEN conjunct2] down_main
    by (simp add: samplePlugin_main_def sampleModal_main_def)
  from a1 a2 a3 b1 b2 b3 show ?thesis by blast
qed

text \<open>
  Claim C5 as stated fails in package zoxide: the query \<open>zzz\<close> matches nothing, and after
  the commit the displayed list is not the filtered result.
\<close>

theorem commit_search_replaces_displayed_counterexample:
  "displayedAfter
     (handleKeypress sampleLibs
        (samplePlugin\<lparr>Modal := Some (sampleModal\<lparr>SearchBar := ''zzz'', SearchMode := True\<rparr>)\<rparr>)
        ''enter'') \<noteq>
   Some (fzfSearch sampleLibs (AllEntries sampleModal) (ToLower sampleLibs ''zzz''))"
  by (simp add: displayedAfter_def handleKeypress_def applySearch_def samplePlugin_def
      sampleModal_def sampleLibs_def lowerChar_def)

text \<open>
  Claim C6, amended. Committing a query that is not empty and matches nothing is no
  error and puts cursor and viewport offset to 0. In package main the displayed list
  becomes empty. In package zoxide the displayed list stays as it was.
\<close>

theorem commit_without_matches:
  "(Modal z = Some m \<and> SearchMode m \<and> ToLower L (tiValue L (SearchBar m)) \<noteq> [] \<and>
    fzfSearch L (AllEntries m) (ToLower L (tiValue L (SearchBar m))) = [] \<longrightarrow>
      handleKeypress L z ''enter'' =
        Inr (z\<lparr>Modal := Some (m\<lparr>Cursor := 0, RenderIndex := 0, SearchMode := False\<rparr>)\<rparr>, [])) \<and>
   (modal y = Some n \<and> open n \<and> searching n \<and> ToLower L (tiValue L (search n)) \<noteq> [] \<and>
    list_all (\<lambda>entry. \<not> Contains (ToLower L entry) (ToLower L (tiValue L (search n)))) (allItems n) \<longrightarrow>
      HandleKeypress L y ''enter'' =
        Inr (y\<lparr>modal := Some (n\<lparr>entries := [], cursor := 0, render := 0,
                                   searching := False\<rparr>)\<rparr>, True, []))"
proof (intro conjI impI)
  assume "Modal z = Some m \<and> SearchMode m \<and> ToLower L (tiValue L (SearchBar m)) \<noteq> [] \<and>
    fzfSearch L (AllEntries m) (ToLower L (tiValue L (SearchBar m))) = []"
  then show "handleKeypress L z ''enter'' =
        Inr (z\<lparr>Modal := Some (m\<lparr>Cursor := 0, RenderIndex := 0, SearchMode := False\<rparr>)\<rparr>, [])"
    by (intro commit_no_match_zoxide) simp_all
next
  assume a: "modal y = Some n \<and> open n \<and> searching n \<and> ToLower L (tiValue L (search n)) \<noteq> [] \<and>
    list_all (\<lambda>entry. \<not> Contains (ToLower L entry) (ToLower L (tiValue L (search n)))) (allItems n)"
  then have "filter (\<lambda>entry. Contains (ToLower L entry) (ToLower L (tiValue L (search n))))
      (allItems n) = []"
    by (simp add: filter_empty_conv list_all_iff)
  moreover from a have "HandleKeypress L y ''enter'' =
           Inr (y\<lparr>modal := Some
                    (n\<lparr>entries := filter (\<lambda>entry. Contains (ToLower L entry)
                                              (ToLower L (tiValue L (search n)))) (allItems n),
                       cursor := 0, render := 0, searching := False\<rparr>)\<rparr>, True, [])"
    by (intro commit_term_main) simp_all
  ultimately show "HandleKeypress L y ''enter'' =
        Inr (y\<lparr>modal := Some (n\<lparr>entries := [], cursor := 0, render := 0,
                                   searching := False\<rparr>)\<rparr>, True, [])"
    by simp
qed

theorem commit_without_matches_witness:
  "handleKeypress sampleLibs
     (samplePlugin\<lparr>Modal := Some (sampleModal\<lparr>Cursor := 1, SearchBar := ''zzz'',
                                            SearchMode := True\<rparr>)\<rparr>) ''enter'' =
     Inr (samplePlugin\<lparr>Modal := Some (sampleModal\<lparr>SearchBar := ''zzz''\<rparr>)\<rparr>, []) \<and>
   HandleKeypress sampleLibs
     (samplePlugin_main\<lparr>modal := Some (sampleModal_main\<lparr>cursor := 1, search := ''zzz'',
                                                   searching := True\<rparr>)\<rparr>) ''enter'' =
     Inr (samplePlugin_main\<lparr>modal := Some (sampleModal_main\<lparr>search := ''zzz'',
                                                       entries := []\<rparr>)\<rparr>, True, [])"
proof -
  have a: "handleKeypress sampleLibs
     (samplePlugin\<lparr>Modal := Some (sampleModal\<lparr>Cursor := 1, SearchBar := ''zzz'',
                                            SearchMode := True\<rparr>)\<rparr>) ''enter'' =
     Inr (samplePlugin\<lparr>Modal := Some (sampleModal\<lparr>SearchBar := ''zzz''\<rparr>)\<rparr>, [])"
    using commit_without_matches
      [where L = sampleLibs
         and z = "samplePlugin\<lparr>Modal := Some (sampleModal\<lparr>Cursor := 1, SearchBar := ''zzz'',
                                            SearchMode := True\<rparr>)\<rparr>"
         and m = "sampleModal\<lparr>Cursor := 1, SearchBar := ''zzz'', SearchMode := True\<rparr>",
       THEN conjunct1]
    by (simp add: sampleLower sampleInput sampleMatches samplePlugin_def sampleModal_def)
  have b: "HandleKeypress sampleLibs
     (samplePlugin_main\<lparr>modal := Some (sampleModal_main\<lparr>cursor := 1, search := ''zzz'',
                                                   searching := True\<rparr>)\<rparr>) ''enter'' =
     Inr (samplePlugin_main\<lparr>modal := Some (sampleModal_main\<lparr>search := ''zzz'',
                                                       entries := []\<rparr>)\<rparr>, True, [])"
    using commit_without_matches
      [where L = sampleLibs
         and y = "samplePlugin_main\<lparr>modal := Some (sampleModal_main\<lparr>cursor := 1, search := ''zzz'',
                                                   searching := True\<rparr>)\<rparr>"
         and n = "sampleModal_main\<lparr>cursor := 1, search := ''zzz'', searching := True\<rparr>",
       THEN conjunct2]
    by (simp add: sampleLower sampleInput samplePlugin_main_def sampleModal_main_def)
  from a b show ?thesis by blast
qed

text \<open>
  Claim C6 as stated fails in package zoxide: the query \<open>q9\<close> is not empty and matches
  nothing, and after the commit the displayed list is not empty.
\<close>

theorem commit_without_matches_counterexample:
  "ToLower sampleLibs ''q9'' \<noteq> [] \<and>
   fzfSearch sampleLibs (AllEntries sampleModal) (ToLower sampleLibs ''q9'') = [] \<and>
   displayedAfter
     (handleKeypress sampleLibs
        (samplePlugin\<lparr>Modal := Some (sampleModal\<lparr>Entries := [''/srv/b''], SearchBar := ''q9'',
                                               SearchMode := True\<rparr>)\<rparr>)
        ''enter'') \<noteq> Some []"
  by (simp add: displayedAfter_def handleKeypress_def applySearch_def samplePlugin_def
      sampleModal_def sampleLibs_def lowerChar_def)

section \<open>Properties of the cursor and the viewport\<close>















text \<open>
  Wrapping around. In package zoxide the key \<open>up\<close> at cursor 0 puts the cursor at
  \<open>N - 1\<close> and the viewport offset at \<open>max 0 (N - viewportHeight)\<close>. In package main it
  puts the viewport offset at \<open>max 0 (N - height)\<close>, where \<open>height\<close> is four more than the
  rows \<open>RenderModal\<close> draws. In both the key \<open>down\<close> at cursor \<open>N - 1\<close> puts both at 0.
\<close>

lemma wraparound_zoxide:
  assumes "Modal z = Some m" "\<not> SearchMode m" "Entries m \<noteq> []"
  shows "(Cursor m = 0 \<longrightarrow>
            handleKeypress L z ''up'' =
              Inr (z\<lparr>Modal := Some
                       (m\<lparr>Cursor := int (length (Entries m)) - 1,
                          RenderIndex := max 0 (int (length (Entries m)) - viewportHeight m)\<rparr>)\<rparr>,
                   [])) \<and>
         (Cursor m = int (length (Entries m)) - 1 \<longrightarrow>
            handleKeypress L z ''down'' =
              Inr (z\<lparr>Modal := Some (m\<lparr>Cursor := 0, RenderIndex := 0\<rparr>)\<rparr>, []))"
  using assms
  by (simp add: handleKeypress_def maxInt_def viewportHeight_def max_def)

lemma wraparound_main:
  assumes "modal y = Some n" "open n" "\<not> searching n" "entries n \<noteq> []"
  shows "(cursor n = 0 \<longrightarrow>
            HandleKeypress L y ''up'' =
              Inr (y\<lparr>modal := Some
                       (n\<lparr>cursor := int (length (entries n)) - 1,
                          render := max 0 (int (length (entries n)) - height n)\<rparr>)\<rparr>,
                   True, [])) \<and>
         (cursor n = int (length (entries n)) - 1 \<longrightarrow>
            HandleKeypress L y ''down'' =
              Inr (y\<lparr>modal := Some (n\<lparr>cursor := 0, render := 0\<rparr>)\<rparr>, True, []))"
  using assms
  by (simp add: HandleKeypress_def Let_def max_def)

text \<open>
  Claim C3: the key \<open>up\<close> at cursor 0 on a list of \<open>N\<close> entries sets the cursor to
  \<open>N - 1\<close> and the viewport offset to \<open>max 0 (N - viewportHeight)\<close>. Package main does
  not: with eight entries and, after a resize to a terminal of 15 rows, a height of 10
  and so a viewport of six rows, the key \<open>up\<close> sets the cursor to 7 and the viewport
  offset to 0, where the claim gives 2; the rows drawn are 0 to 5, without the cursor.
\<close>

theorem HandleKeypress_wrap_up_offset:
  "runEvents_main sampleLibs
     (samplePlugin_main\<lparr>modal := Some (sampleModal_main\<lparr>entries := sampleEight,
                                                   allItems := sampleEight\<rparr>)\<rparr>)
     [Resize 80 15, Key ''up''] =
     Inr (samplePlugin_main\<lparr>modal := Some (sampleModal_main\<lparr>entries := sampleEight,
            allItems := sampleEight, width := 53, height := 10, cursor := 7, render := 0\<rparr>)\<rparr>) \<and>
   max 0 (int (length sampleEight) -
          viewportHeight_main (sampleModal_main\<lparr>entries := sampleEight,
            allItems := sampleEight, width := 53, height := 10, cursor := 7, render := 0\<rparr>)) = 2 \<and>
   renderIndices (sampleModal_main\<lparr>entries := sampleEight,
            allItems := sampleEight, width := 53, height := 10, cursor := 7, render := 0\<rparr>) =
     [0, 1, 2, 3, 4, 5]"
  by (simp add: stepEvent_main_def HandleKeypress_def UpdateModalSize_main_def Let_def
      int64_def signed_divide_int_def samplePlugin_main_def sampleModal_main_def sampleEight_def
      viewportHeight_main_def renderIndices_def upto.simps)

text \<open>
  Claim C9: the cursor is 0 when the displayed list is empty, and an index of the list
  when it is not. Package main does not keep this: a search for \<open>z\<close> empties the
  displayed list, the key \<open>up\<close> then sets the cursor to \<open>-1\<close>; cancelling a further
  search restores the two entries with the cursor still at \<open>-1\<close>, and the key \<open>enter\<close>
  then reads the entry at index \<open>-1\<close>, a panic.
\<close>

theorem HandleKeypress_up_on_empty:
  "runEvents_main sampleLibs samplePlugin_main (map Key [''/'', ''z'', ''enter'', ''up'']) =
     Inr (samplePlugin_main\<lparr>modal := Some (sampleModal_main\<lparr>search := ''z'', entries := [],
                                                       cursor := - 1\<rparr>)\<rparr>) \<and>
   runEvents_main sampleLibs samplePlugin_main
     (map Key [''/'', ''z'', ''enter'', ''up'', ''/'', ''esc'']) =
     Inr (samplePlugin_main\<lparr>modal := Some (sampleModal_main\<lparr>cursor := - 1\<rparr>)\<rparr>) \<and>
   runEvents_main sampleLibs samplePlugin_main
     (map Key [''/'', ''z'', ''enter'', ''up'', ''/'', ''esc'', ''enter'']) =
     Inl IndexOutOfRange"
  by (simp add: stepEvent_main_def HandleKeypress_def applySearch_main_def Let_def
      samplePlugin_main_def sampleModal_main_def sampleLibs_def lowerChar_def)

text \<open>
  Claim C8: when the history tool fails or prints nothing at the time the modal is to
  open, the modal stays closed and shows no entries. \<open>Show\<close> of package main does not,
  once its cache holds that the directory has a history: after the modal of the sample
  was closed, \<open>Show\<close> with a tool that prints nothing opens the modal with one entry,
  the empty path.
\<close>

theorem Show_with_stale_cache:
  "runEvents_main sampleLibs samplePlugin_main [Key ''q''] =
     Inr (samplePlugin_main\<lparr>modal := Some (sampleModal_main\<lparr>open := False\<rparr>)\<rparr>) \<and>
   Show sampleLibs (samplePlugin_main\<lparr>modal := Some (sampleModal_main\<lparr>open := False\<rparr>)\<rparr>)
     ''/home/u'' (Inr []) (Inr []) =
     Inr (samplePlugin_main\<lparr>modal := Some (sampleModal_main\<lparr>entries := [[]],
                                                       allItems := [[]]\<rparr>)\<rparr>, [])"
  by (simp add: stepEvent_main_def HandleKeypress_def Show_def IsEmptyHistory_def Let_def
      samplePlugin_main_def sampleModal_main_def sampleLibs_def newline_def)

text \<open>
  The other paths keep the modal closed: the command of \<open>Open\<close> in package zoxide, \<open>Show\<close>
  for a directory the cache does not know, and \<open>Show\<close> when the tool fails.
\<close>

lemma OpenCmd_closes_without_history:
  assumes "run = Inl e \<or> run = Inr []"
  shows "OpenCmd L run z = Inr (z\<lparr>isOpen := False\<rparr>, None)"
  using assms by (auto simp: OpenCmd_def getZoxideHistory_def)

lemma Show_stays_closed_without_cache:
  assumes "emptyFlag y = Some flags" "flags baseDir = None" "run1 = Inl e \<or> run1 = Inr []"
  shows "Show L y baseDir run1 run2 = Inr (y\<lparr>emptyFlag := Some (flags(baseDir \<mapsto> True))\<rparr>, [])"
  using assms by (auto simp: Show_def IsEmptyHistory_def)

lemma Show_stays_closed_on_error:
  assumes "emptyFlag y = Some flags" "flags baseDir = Some False"
  shows "Show L y baseDir run1 (Inl e) = Inr (y, [(''Error getting zoxide history'', e)])"
  using assms by (simp add: Show_def IsEmptyHistory_def)


end
